theory Spec2Isabelle
  imports Complex_Main
begin

section \<open>Data model\<close>

text \<open>
  The persistent store holds four collections (manuscripts, reviews, payments, users), one
  list per collection in the collection's natural order, so that \<open>findOne\<close> returns the
  first match. Object ids are natural numbers, dates are milliseconds since the epoch, and
  every \<^verbatim>\<open>new Date()\<close> / \<^verbatim>\<open>Date.now()\<close> of one request reads the same
  clock value \<open>now\<close>. Status values are plain strings, as in the source; a path that is
  \<^verbatim>\<open>undefined\<close> is \<open>None\<close>. A score is a Number, kept as the rational value of
  the double. An editor note is kept as the handlers push it,
  with its \<open>type\<close>, a key the schema of \<open>editorNotes\<close> does not declare; no property
  below reads it.
\<close>

type_synonym oid = nat
type_synonym date = nat

record editor_note =
  n_note :: string
  n_addedBy :: oid
  n_addedAt :: date
  n_type :: string

record editor_decision =
  decision :: string
  decidedBy :: oid
  decidedAt :: date
  d_notes :: "string option"

record review_assignment =
  ra_reviewer :: oid
  ra_assignedDate :: date
  ra_dueDate :: date
  ra_status :: string

record publication_details =
  publishedDate :: date
  volume :: "string option"
  issue :: "string option"
  pages :: "string option"
  doi_stamp :: date

record manuscript =
  m_id :: oid
  m_title :: string
  m_submittedBy :: oid
  m_status :: "string option"
  m_editorDecision :: "editor_decision option"
  m_revisionDeadline :: "date option"
  m_publicationDetails :: "publication_details option"
  m_paymentCompleted :: bool
  m_paymentReference :: "string option"
  m_submissionDate :: "date option"
  m_lastModified :: date
  m_reviewAssignments :: "review_assignment list"
  m_reviews :: "oid list"
  m_editorNotes :: "editor_note list"

record criterion =
  score :: "rat option"
  comment :: "string option"

record evaluation =
  originality :: criterion
  significance :: criterion
  methodology :: criterion
  clarity :: criterion
  literature :: criterion

record review =
  r_id :: oid
  r_manuscript :: oid
  r_reviewer :: oid
  r_assignedBy :: oid
  r_assignedDate :: date
  r_dueDate :: date
  r_submittedDate :: "date option"
  r_status :: string
  r_recommendation :: "string option"
  r_evaluation :: evaluation
  r_overallScore :: "rat option"
  r_confidenceLevel :: "rat option"
  r_strengths :: "string option"
  r_weaknesses :: "string option"
  r_specificComments :: "string option"
  r_confidentialComments :: "string option"
  r_suggestedReviewers :: "string list"

record payment_metadata =
  publicationFee :: int
  platformFee :: int
  vendorReceives :: int
  paymentFor :: string

record payment =
  p_id :: oid
  p_manuscript :: oid
  p_user :: oid
  p_amount :: int
  p_currency :: string
  p_paymentReference :: "string option"
  p_paystackReference :: "string option"
  p_status :: string
  p_transactionId :: "string option"
  p_authorizationUrl :: "string option"
  p_accessCode :: "string option"
  p_paystackData :: "string option"
  p_metadata :: payment_metadata
  p_paidAt :: "date option"
  p_failureReason :: "string option"

record user =
  u_id :: oid
  u_role :: string
  u_email :: string
  u_firstName :: string
  u_lastName :: string
  u_reviewAssignments :: "oid list"

record store =
  manuscripts :: "manuscript list"
  reviews :: "review list"
  payments :: "payment list"
  users :: "user list"

text \<open>The authenticated caller: \<^verbatim>\<open>req.user\<close> and \<^verbatim>\<open>req.userProfile?.email\<close>.\<close>

record caller =
  c_id :: oid
  c_role :: string
  c_email :: "string option"

text \<open>
  What a handler answers when it does not answer \<^verbatim>\<open>success: true\<close>. The HTTP codes:
  \<open>NotFound\<close> 404, \<open>Forbidden\<close> 403, \<open>ServerError\<close> 500 (the handler's outer
  \<^verbatim>\<open>catch\<close>), \<open>GatewayError\<close> 500 (the inner \<^verbatim>\<open>catch (paystackError)\<close>),
  all others 400.
\<close>

datatype failure =
    NotFound
  | Forbidden
  | InvalidState
  | PendingReviews
  | AlreadyPaid "string option"
  | NoEmail
  | ValidationErrors
  | InvalidSignature
  | VerificationFailed "string option"
  | GatewayError
  | ServerError

section \<open>Helpers of the runtime\<close>

text \<open>\<^verbatim>\<open>if (x)\<close> on an optional string of the request body: present and non-empty.\<close>

definition truthy :: "string option \<Rightarrow> bool" where
  "truthy x = (case x of None \<Rightarrow> False | Some v \<Rightarrow> v \<noteq> [])"

text \<open>\<^verbatim>\<open>String.prototype.includes\<close>: the needle occurs as a contiguous substring.\<close>

fun starts_with :: "string \<Rightarrow> string \<Rightarrow> bool" where
  "starts_with [] ys = True"
| "starts_with (x # xs) [] = False"
| "starts_with (x # xs) (y # ys) = (x = y \<and> starts_with xs ys)"

fun js_includes :: "string \<Rightarrow> string \<Rightarrow> bool" where
  "js_includes needle [] = (needle = [])"
| "js_includes needle (y # ys) = (starts_with needle (y # ys) \<or> js_includes needle ys)"

text \<open>
  A JavaScript Number is a double. The model keeps the exact value of a Number as a
  rational and rounds the result of every arithmetic operation to the nearest double:
  53 significant bits, a tie going to the even significand. Overflow, subnormal numbers
  and NaN are outside the model; the Numbers computed below are scores between 1 and 5,
  sums of at most five of them, and the quotient of such a sum by their number.
\<close>

fun log2floor :: "nat \<Rightarrow> nat" where
  "log2floor n = (if n < 2 then 0 else Suc (log2floor (n div 2)))"

declare log2floor.simps [simp del]

definition pow2 :: "int \<Rightarrow> rat" where
  "pow2 e = (if 0 \<le> e then 2 ^ nat e else 1 / 2 ^ nat (- e))"

text \<open>The exponent \<open>e\<close> with \<open>2 ^ e \<le> a < 2 ^ (e + 1)\<close>, for a positive \<open>a\<close>.\<close>

definition binade :: "rat \<Rightarrow> int" where
  "binade a =
     (if 1 \<le> a then int (log2floor (nat \<lfloor>a\<rfloor>))
      else - int (Suc (log2floor (nat \<lceil>1 / a\<rceil> - 1))))"

definition round_half_even :: "rat \<Rightarrow> int" where
  "round_half_even q =
     (let f = \<lfloor>q\<rfloor>; d = q - of_int f
      in if d < 1 / 2 then f else if 1 / 2 < d then f + 1
         else if even f then f else f + 1)"

definition to_double :: "rat \<Rightarrow> rat" where
  "to_double x =
     (if x = 0 then 0
      else let a = \<bar>x\<bar>; u = pow2 (binade a - 52)
           in sgn x * of_int (round_half_even (a / u)) * u)"

text \<open>\<^verbatim>\<open>a + b\<close> and \<^verbatim>\<open>a / b\<close> on Numbers.\<close>

definition js_add :: "rat \<Rightarrow> rat \<Rightarrow> rat" where
  "js_add a b = to_double (a + b)"

definition js_div :: "rat \<Rightarrow> rat \<Rightarrow> rat" where
  "js_div a b = to_double (a / b)"

text \<open>
  The value of \<^verbatim>\<open>obj[key]\<close> on an object literal whose own values are strings: the own
  value, or \<^verbatim>\<open>undefined\<close>, or, when the key names a property of
  \<^verbatim>\<open>Object.prototype\<close>, the inherited value, which is a function (for
  \<^verbatim>\<open>__proto__\<close>, the prototype object) and not a string.
\<close>

datatype js_lookup = Undefined | Own string | Inherited

definition object_prototype_keys :: "string list" where
  "object_prototype_keys =
     [''constructor'', ''__defineGetter__'', ''__defineSetter__'', ''hasOwnProperty'',
      ''__lookupGetter__'', ''__lookupSetter__'', ''isPrototypeOf'',
      ''propertyIsEnumerable'', ''toString'', ''valueOf'', ''__proto__'',
      ''toLocaleString'']"

definition js_property :: "(string \<times> string) list \<Rightarrow> string \<Rightarrow> js_lookup" where
  "js_property literal key =
     (case map_of literal key of
        Some v \<Rightarrow> Own v
      | None \<Rightarrow> if key \<in> set object_prototype_keys then Inherited else Undefined)"

text \<open>
  \<^verbatim>\<open>x || d\<close> and \<^verbatim>\<open>x ? x : d\<close> on an optional date of the request body, which is a
  number of milliseconds: \<^verbatim>\<open>undefined\<close> and 0 are falsy.
\<close>

definition or_else :: "date option \<Rightarrow> date \<Rightarrow> date" where
  "or_else x d = (case x of None \<Rightarrow> d | Some t \<Rightarrow> if t = 0 then d else t)"

definition days :: "nat \<Rightarrow> date" where
  "days n = n * 24 * 60 * 60 * 1000"

text \<open>
  Modelled from the spec: the role gate \<^verbatim>\<open>authorize(...roles)\<close> of
  \<^verbatim>\<open>middleware/auth\<close>, which is not among the source files: the request is refused with
  Forbidden unless the caller's role is one of the listed roles.
\<close>

definition authorize :: "string list \<Rightarrow> caller \<Rightarrow> bool" where
  "authorize roles c = (c_role c \<in> set roles)"

section \<open>Manuscript model: schema validation and the save hook\<close>

definition manuscript_status_enum :: "string list" where
  "manuscript_status_enum =
     [''draft'', ''submitted'', ''awaiting-reviewer-assignment'', ''under-review'',
      ''revision-requested'', ''revised'', ''accepted'', ''rejected'', ''published'',
      ''withdrawn'']"

definition editor_decision_enum :: "string list" where
  "editor_decision_enum = [''accept'', ''minor-revisions'', ''major-revisions'', ''reject'']"

text \<open>
  The enum validators the schema declares on \<open>status\<close> and \<open>editorDecision.decision\<close>.
  An enum validator accepts an unset path. The other validators of the schema sit on
  fields no handler below writes.
\<close>

definition manuscript_validate :: "manuscript \<Rightarrow> bool" where
  "manuscript_validate m =
     ((case m_status m of None \<Rightarrow> True | Some v \<Rightarrow> v \<in> set manuscript_status_enum) \<and>
      (case m_editorDecision m of None \<Rightarrow> True
       | Some d \<Rightarrow> decision d \<in> set editor_decision_enum))"

text \<open>The schema's \<^verbatim>\<open>pre('save')\<close> hook; \<open>old\<close> is the document as loaded.\<close>

definition manuscript_pre_save :: "date \<Rightarrow> manuscript \<Rightarrow> manuscript \<Rightarrow> manuscript" where
  "manuscript_pre_save now old m =
     (let m1 = (if m_status m \<noteq> m_status old \<and> m_status m = Some ''submitted''
                   \<and> m_submissionDate m = None
                then m\<lparr>m_submissionDate := Some now\<rparr> else m)
      in m1\<lparr>m_lastModified := now\<rparr>)"

definition findManuscript :: "oid \<Rightarrow> store \<Rightarrow> manuscript option" where
  "findManuscript i s = find (\<lambda>m. m_id m = i) (manuscripts s)"

definition put_manuscript :: "manuscript \<Rightarrow> store \<Rightarrow> store" where
  "put_manuscript m s =
     s\<lparr>manuscripts := map (\<lambda>x. if m_id x = m_id m then m else x) (manuscripts s)\<rparr>"

text \<open>
  \<^verbatim>\<open>manuscript.save()\<close>: the built-in validation runs before the schema's own
  \<^verbatim>\<open>pre('save')\<close> hook; a validation error rejects the save and nothing is written.
\<close>

definition manuscript_save :: "date \<Rightarrow> manuscript \<Rightarrow> manuscript \<Rightarrow> store \<Rightarrow> store option" where
  "manuscript_save now old m s =
     (if manuscript_validate m then Some (put_manuscript (manuscript_pre_save now old m) s)
      else None)"

section \<open>Editorial decision engine\<close>

record decision_body =
  b_decision :: "string option"
  b_editorNotes :: "string option"
  b_internalNotes :: "string option"
  b_revisionInstructions :: "string option"
  b_revisionDeadline :: "date option"

record decision_reply =
  newStatus :: "string option"
  requiresPayment :: bool

definition push_note :: "string \<Rightarrow> oid \<Rightarrow> date \<Rightarrow> string \<Rightarrow> manuscript \<Rightarrow> manuscript" where
  "push_note txt by now ty m =
     m\<lparr>m_editorNotes := m_editorNotes m @
        [\<lparr>n_note = txt, n_addedBy = by, n_addedAt = now, n_type = ty\<rparr>]\<rparr>"

text \<open>\<^verbatim>\<open>if (x && cond) manuscript.editorNotes.push({note: prefix + x, ...})\<close>\<close>

definition note_if :: "bool \<Rightarrow> string \<Rightarrow> string option \<Rightarrow> oid \<Rightarrow> date \<Rightarrow> string \<Rightarrow>
    manuscript \<Rightarrow> manuscript" where
  "note_if cond prefix x by now ty m =
     (case x of
        None \<Rightarrow> m
      | Some v \<Rightarrow> if v \<noteq> [] \<and> cond then push_note (prefix @ v) by now ty m else m)"

text \<open>\<^verbatim>\<open>statusMap[decision]\<close>\<close>

definition statusMap :: "string \<Rightarrow> js_lookup" where
  "statusMap = js_property
     [(''accept'', ''accepted''),
      (''minor-revisions'', ''revision-requested''),
      (''major-revisions'', ''revision-requested''),
      (''reject'', ''rejected'')]"

text \<open>
  \<^verbatim>\<open>manuscript.status = newStatus\<close>: the document holds the string, or nothing for
  \<^verbatim>\<open>undefined\<close>. An inherited value is not a string: the cast of the String path
  either fails (the prototype object) or yields the source text of the function, which
  the status enum does not list, so the path is invalid at the next save.
\<close>

definition status_of :: "js_lookup \<Rightarrow> string option" where
  "status_of v = (case v of Own st \<Rightarrow> Some st | Undefined \<Rightarrow> None | Inherited \<Rightarrow> None)"

definition status_castable :: "js_lookup \<Rightarrow> bool" where
  "status_castable v = (case v of Inherited \<Rightarrow> False | Undefined \<Rightarrow> True | Own st \<Rightarrow> True)"

text \<open>
  \<^verbatim>\<open>Review.countDocuments({manuscript, status: {$in: ['pending', 'accepted']}})\<close>
\<close>

definition pendingReviews :: "oid \<Rightarrow> store \<Rightarrow> nat" where
  "pendingReviews mid s =
     length (filter (\<lambda>r. r_manuscript r = mid \<and> r_status r \<in> set [''pending'', ''accepted''])
       (reviews s))"

text \<open>
  \<^verbatim>\<open>POST /make-decision/:manuscriptId\<close>. A request without \<open>decision\<close> raises a
  TypeError at \<^verbatim>\<open>decision.includes\<close>, before anything is saved. The notification
  e-mail is sent inside its own \<^verbatim>\<open>try/catch\<close> after the save and changes neither the
  store nor the answer.
\<close>

definition make_decision ::
  "caller \<Rightarrow> oid \<Rightarrow> decision_body \<Rightarrow> date \<Rightarrow> store \<Rightarrow> (failure + decision_reply) \<times> store" where
  "make_decision c mid b now s =
     (if \<not> authorize [''editor'', ''admin''] c then (Inl Forbidden, s)
      else case findManuscript mid s of
        None \<Rightarrow> (Inl NotFound, s)
      | Some m \<Rightarrow>
          if pendingReviews mid s > 0 then (Inl PendingReviews, s)
          else (case b_decision b of
            None \<Rightarrow> (Inl ServerError, s)
          | Some d \<Rightarrow>
              let new = statusMap d;
                  m1 = note_if True [] (b_editorNotes b) (c_id c) now ''editorial-remarks'' m;
                  m2 = note_if True [] (b_internalNotes b) (c_id c) now ''internal'' m1;
                  m3 = note_if (js_includes ''revisions'' d) ''Revision Instructions: ''
                         (b_revisionInstructions b) (c_id c) now ''revision-instructions'' m2;
                  m4 = push_note (''Editorial decision: '' @ d) (c_id c) now ''system'' m3;
                  m5 = (if js_includes ''revisions'' d
                        then m4\<lparr>m_revisionDeadline :=
                               Some (or_else (b_revisionDeadline b) (now + days 60))\<rparr>
                        else m4);
                  m6 = m5\<lparr>m_status := status_of new,
                          m_editorDecision := Some \<lparr>decision = d, decidedBy = c_id c,
                             decidedAt = now, d_notes = b_editorNotes b\<rparr>\<rparr>
              in (case (if status_castable new then manuscript_save now m m6 s else None) of
                    None \<Rightarrow> (Inl ServerError, s)
                  | Some s' \<Rightarrow>
                      (Inr \<lparr>newStatus = status_of new,
                            requiresPayment = (new = Own ''accepted'')\<rparr>, s'))))"

text \<open>\<^verbatim>\<open>POST /initial-review/:manuscriptId\<close>\<close>

definition initial_review ::
  "caller \<Rightarrow> oid \<Rightarrow> decision_body \<Rightarrow> date \<Rightarrow> store \<Rightarrow> (failure + string option) \<times> store" where
  "initial_review c mid b now s =
     (if \<not> authorize [''editor'', ''admin''] c then (Inl Forbidden, s)
      else case findManuscript mid s of
        None \<Rightarrow> (Inl NotFound, s)
      | Some m \<Rightarrow>
          if m_status m \<noteq> Some ''submitted'' then (Inl InvalidState, s)
          else
            let notes = (\<lambda>sysnote.
                  let m1 = note_if True [] (b_editorNotes b) (c_id c) now ''editorial-remarks'' m;
                      m2 = note_if True [] (b_internalNotes b) (c_id c) now ''internal'' m1
                  in if \<not> truthy (b_editorNotes b) \<and> \<not> truthy (b_internalNotes b)
                     then push_note sysnote (c_id c) now ''system'' m2 else m2);
                (new, m3) =
                  (if b_decision b = Some ''send-for-review''
                   then (Some ''awaiting-reviewer-assignment'',
                         notes ''Manuscript passed initial review and is ready for peer review'')
                   else if b_decision b = Some ''desk-reject''
                   then (Some ''rejected'',
                         notes ''Manuscript rejected during initial editorial review'')
                   else (None, m))
            in (case manuscript_save now m (m3\<lparr>m_status := new\<rparr>) s of
                  None \<Rightarrow> (Inl ServerError, s)
                | Some s' \<Rightarrow> (Inr new, s')))"

record publish_body =
  b_publicationDate :: "date option"
  b_volume :: "string option"
  b_issue :: "string option"
  b_pages :: "string option"

text \<open>
  \<^verbatim>\<open>POST /publish/:manuscriptId\<close>. The source carries the payment check as a comment
  only (``Check if payment is completed (you can add this check)''), so the handler goes
  from the status guard straight to the update.
\<close>

definition publish ::
  "caller \<Rightarrow> oid \<Rightarrow> publish_body \<Rightarrow> date \<Rightarrow> store \<Rightarrow> (failure + publication_details) \<times> store" where
  "publish c mid b now s =
     (if \<not> authorize [''editor'', ''admin''] c then (Inl Forbidden, s)
      else case findManuscript mid s of
        None \<Rightarrow> (Inl NotFound, s)
      | Some m \<Rightarrow>
          if m_status m \<noteq> Some ''accepted'' then (Inl InvalidState, s)
          else
            let pd = \<lparr>publishedDate = or_else (b_publicationDate b) now,
                      volume = b_volume b, issue = b_issue b, pages = b_pages b,
                      doi_stamp = now\<rparr>;
                m1 = m\<lparr>m_status := Some ''published'', m_publicationDetails := Some pd\<rparr>
            in (case manuscript_save now m m1 s of
                  None \<Rightarrow> (Inl ServerError, s)
                | Some s' \<Rightarrow> (Inr pd, s')))"

record submit_back_body =
  sb_editorRemarks :: "string option"
  sb_internalNotes :: "string option"
  sb_revisionInstructions :: "string option"
  sb_revisionDeadline :: "date option"

text \<open>\<^verbatim>\<open>POST /submit-back/:manuscriptId\<close>\<close>

definition submit_back ::
  "caller \<Rightarrow> oid \<Rightarrow> submit_back_body \<Rightarrow> date \<Rightarrow> store \<Rightarrow> (failure + string) \<times> store" where
  "submit_back c mid b now s =
     (if \<not> authorize [''editor'', ''admin''] c then (Inl Forbidden, s)
      else case findManuscript mid s of
        None \<Rightarrow> (Inl NotFound, s)
      | Some m \<Rightarrow>
          let m1 = note_if True [] (sb_editorRemarks b) (c_id c) now ''editorial-remarks'' m;
              m2 = note_if True [] (sb_internalNotes b) (c_id c) now ''internal'' m1;
              m3 = note_if True ''Revision Instructions: '' (sb_revisionInstructions b)
                     (c_id c) now ''revision-instructions'' m2;
              m4 = push_note ''Manuscript submitted back to author for revisions''
                     (c_id c) now ''system'' m3;
              m5 = m4\<lparr>m_status := Some ''submitted-back'',
                      m_revisionDeadline :=
                        Some (or_else (sb_revisionDeadline b) (now + days 30))\<rparr>
          in (case manuscript_save now m m5 s of
                None \<Rightarrow> (Inl ServerError, s)
              | Some s' \<Rightarrow> (Inr ''submitted-back'', s')))"

section \<open>Review model: schema validation and the save hook\<close>

definition review_status_enum :: "string list" where
  "review_status_enum = [''pending'', ''in-progress'', ''completed'', ''overdue'']"

definition recommendation_enum :: "string list" where
  "recommendation_enum = [''accept'', ''minor-revision'', ''major-revision'', ''reject'']"

definition in_1_5 :: "rat option \<Rightarrow> bool" where
  "in_1_5 x = (case x of None \<Rightarrow> True | Some v \<Rightarrow> 1 \<le> v \<and> v \<le> 5)"

definition maxlength :: "nat \<Rightarrow> string option \<Rightarrow> bool" where
  "maxlength n x = (case x of None \<Rightarrow> True | Some v \<Rightarrow> length v \<le> n)"

text \<open>The criteria in the order \<^verbatim>\<open>Object.keys(this.evaluation)\<close> lists them.\<close>

definition criteria :: "evaluation \<Rightarrow> criterion list" where
  "criteria ev = [originality ev, significance ev, methodology ev, clarity ev, literature ev]"

definition review_validate :: "review \<Rightarrow> bool" where
  "review_validate r =
     (r_status r \<in> set review_status_enum \<and>
      (case r_recommendation r of None \<Rightarrow> True | Some v \<Rightarrow> v \<in> set recommendation_enum) \<and>
      list_all (\<lambda>c. in_1_5 (score c)) (criteria (r_evaluation r)) \<and>
      in_1_5 (r_overallScore r) \<and> in_1_5 (r_confidenceLevel r) \<and>
      maxlength 2000 (r_strengths r) \<and> maxlength 2000 (r_weaknesses r) \<and>
      maxlength 5000 (r_specificComments r) \<and> maxlength 2000 (r_confidentialComments r))"

text \<open>
  The scores the hook collects: \<^verbatim>\<open>if (this.evaluation[key].score) scores.push(...)\<close>,
  so a criterion counts when its score is set and not zero.
\<close>

definition collected_scores :: "evaluation \<Rightarrow> rat list" where
  "collected_scores ev =
     concat (map (\<lambda>c. case score c of None \<Rightarrow> [] | Some v \<Rightarrow> if v \<noteq> 0 then [v] else [])
       (criteria ev))"

text \<open>
  \<^verbatim>\<open>scores.reduce((sum, score) => sum + score, 0) / scores.length\<close>
\<close>

definition js_average :: "rat list \<Rightarrow> rat" where
  "js_average scores = js_div (foldl js_add 0 scores) (of_nat (length scores))"

text \<open>
  \<^verbatim>\<open>reviewSchema.pre('save')\<close>; \<open>old\<close> is the document as loaded (for
  \<^verbatim>\<open>isModified\<close>).
\<close>

definition review_pre_save :: "date \<Rightarrow> review \<Rightarrow> review \<Rightarrow> review" where
  "review_pre_save now old r =
     (let scores = collected_scores (r_evaluation r);
          r1 = (if length scores > 0
                then r\<lparr>r_overallScore := Some (js_average scores)\<rparr>
                else r)
      in if r_recommendation r1 \<noteq> r_recommendation old \<and> truthy (r_recommendation r1)
            \<and> r_status r1 = ''pending''
         then r1\<lparr>r_status := ''completed'', r_submittedDate := Some now\<rparr>
         else r1)"

definition findReview :: "oid \<Rightarrow> store \<Rightarrow> review option" where
  "findReview i s = find (\<lambda>r. r_id r = i) (reviews s)"

definition findUser :: "oid \<Rightarrow> store \<Rightarrow> user option" where
  "findUser i s = find (\<lambda>u. u_id u = i) (users s)"

text \<open>A saved document replaces the stored one with its id; a new document is appended.\<close>

definition put_review :: "review \<Rightarrow> store \<Rightarrow> store" where
  "put_review r s =
     (if r_id r \<in> set (map r_id (reviews s))
      then s\<lparr>reviews := map (\<lambda>x. if r_id x = r_id r then r else x) (reviews s)\<rparr>
      else s\<lparr>reviews := reviews s @ [r]\<rparr>)"

definition review_save :: "date \<Rightarrow> review \<Rightarrow> review \<Rightarrow> store \<Rightarrow> store option" where
  "review_save now old r s =
     (if review_validate r then Some (put_review (review_pre_save now old r) s) else None)"

section \<open>Review aggregator\<close>

text \<open>
  \<^verbatim>\<open>Manuscript.findOneAndUpdate({_id, 'reviewAssignments.reviewer': rv},
  {$set: {'reviewAssignments.$.status': st}})\<close>: the positional operator writes the first
  array element that matches.
\<close>

fun set_first_assignment :: "oid \<Rightarrow> string \<Rightarrow> review_assignment list \<Rightarrow> review_assignment list" where
  "set_first_assignment rv st [] = []"
| "set_first_assignment rv st (a # as) =
     (if ra_reviewer a = rv then a\<lparr>ra_status := st\<rparr> # as
      else a # set_first_assignment rv st as)"

definition update_manuscript :: "oid \<Rightarrow> (manuscript \<Rightarrow> manuscript) \<Rightarrow> store \<Rightarrow> store" where
  "update_manuscript mid f s =
     s\<lparr>manuscripts := map (\<lambda>x. if m_id x = mid then f x else x) (manuscripts s)\<rparr>"

definition update_user :: "oid \<Rightarrow> (user \<Rightarrow> user) \<Rightarrow> store \<Rightarrow> store" where
  "update_user uid f s =
     s\<lparr>users := map (\<lambda>x. if u_id x = uid then f x else x) (users s)\<rparr>"

definition mirror_status :: "oid \<Rightarrow> oid \<Rightarrow> string \<Rightarrow> store \<Rightarrow> store" where
  "mirror_status mid rv st s =
     update_manuscript mid
       (\<lambda>m. m\<lparr>m_reviewAssignments := set_first_assignment rv st (m_reviewAssignments m)\<rparr>) s"

definition findReviewFor :: "oid \<Rightarrow> oid \<Rightarrow> store \<Rightarrow> review option" where
  "findReviewFor mid rv s =
     find (\<lambda>r. r_manuscript r = mid \<and> r_reviewer r = rv) (reviews s)"

text \<open>The id a new document receives: one that no stored review has.\<close>

definition fresh_review_id :: "store \<Rightarrow> oid" where
  "fresh_review_id s = Suc (fold max (map r_id (reviews s)) 0)"

definition no_criterion :: criterion where
  "no_criterion = \<lparr>score = None, comment = None\<rparr>"

definition new_review :: "oid \<Rightarrow> oid \<Rightarrow> oid \<Rightarrow> oid \<Rightarrow> date \<Rightarrow> date \<Rightarrow> review" where
  "new_review i mid rv by due now =
     \<lparr>r_id = i, r_manuscript = mid, r_reviewer = rv, r_assignedBy = by,
      r_assignedDate = now, r_dueDate = due, r_submittedDate = None,
      r_status = ''pending'', r_recommendation = None,
      r_evaluation = \<lparr>originality = no_criterion, significance = no_criterion,
         methodology = no_criterion, clarity = no_criterion, literature = no_criterion\<rparr>,
      r_overallScore = None, r_confidenceLevel = None, r_strengths = None,
      r_weaknesses = None, r_specificComments = None, r_confidentialComments = None,
      r_suggestedReviewers = []\<rparr>"

text \<open>
  The loop of \<^verbatim>\<open>POST /assign\<close> over \<open>reviewerIds\<close>, threading the handler's
  \<open>assignedReviews\<close> and the store. \<open>None\<close> is an exception out of the loop (a rejected
  save), which the handler's \<^verbatim>\<open>catch\<close> answers with 500; what was written before
  stays written. The e-mail to the reviewer is sent inside its own \<^verbatim>\<open>try/catch\<close>.
\<close>

fun assign_loop :: "caller \<Rightarrow> oid \<Rightarrow> date \<Rightarrow> date \<Rightarrow> oid list \<Rightarrow> review list \<Rightarrow> store \<Rightarrow>
    review list option \<times> store" where
  "assign_loop c mid due now [] assigned s = (Some assigned, s)"
| "assign_loop c mid due now (rv # rvs) assigned s =
     (case findUser rv s of
        None \<Rightarrow> assign_loop c mid due now rvs assigned s
      | Some reviewer \<Rightarrow>
          (case findReviewFor mid rv s of
             Some existingReview \<Rightarrow> assign_loop c mid due now rvs (assigned @ [existingReview]) s
           | None \<Rightarrow>
               let r = new_review (fresh_review_id s) mid rv (c_id c) due now
               in (case review_save now r r s of
                     None \<Rightarrow> (None, s)
                   | Some s1 \<Rightarrow>
                       let saved = review_pre_save now r r;
                           s2 = update_manuscript mid
                                  (\<lambda>m. m\<lparr>m_reviewAssignments := m_reviewAssignments m @
                                     [\<lparr>ra_reviewer = rv, ra_assignedDate = now,
                                       ra_dueDate = due, ra_status = ''pending''\<rparr>]\<rparr>) s1;
                           s3 = update_user rv
                                  (\<lambda>u. u\<lparr>u_reviewAssignments :=
                                     u_reviewAssignments u @ [r_id saved]\<rparr>) s2
                       in assign_loop c mid due now rvs (assigned @ [saved]) s3)))"

text \<open>
  \<^verbatim>\<open>POST /assign\<close>. The answer carries \<^verbatim>\<open>assignedReviews.length\<close> (as a field
  and inside its message) and no review.
\<close>

definition assign ::
  "caller \<Rightarrow> oid \<Rightarrow> oid list \<Rightarrow> date option \<Rightarrow> date \<Rightarrow> store \<Rightarrow> (failure + nat) \<times> store" where
  "assign c mid reviewerIds dueDate now s =
     (if \<not> authorize [''editor'', ''admin''] c then (Inl Forbidden, s)
      else if reviewerIds = [] then (Inl ValidationErrors, s)
      else case findManuscript mid s of
        None \<Rightarrow> (Inl NotFound, s)
      | Some m \<Rightarrow>
          let reviewDueDate = or_else dueDate (now + days 30)
          in (case assign_loop c mid reviewDueDate now reviewerIds [] s of
                (None, s1) \<Rightarrow> (Inl ServerError, s1)
              | (Some assigned, s1) \<Rightarrow>
                  (Inr (length assigned),
                   if length assigned > 0
                   then update_manuscript mid (\<lambda>m. m\<lparr>m_status := Some ''under-review''\<rparr>) s1
                   else s1)))"

text \<open>\<^verbatim>\<open>POST /:id/accept\<close>\<close>

definition accept_review :: "caller \<Rightarrow> oid \<Rightarrow> date \<Rightarrow> store \<Rightarrow> (failure + unit) \<times> store" where
  "accept_review c rid now s =
     (case findReview rid s of
        None \<Rightarrow> (Inl NotFound, s)
      | Some r \<Rightarrow>
          if r_reviewer r \<noteq> c_id c then (Inl Forbidden, s)
          else if r_status r \<noteq> ''pending'' then (Inl InvalidState, s)
          else (case review_save now r (r\<lparr>r_status := ''in-progress''\<rparr>) s of
                  None \<Rightarrow> (Inl ServerError, s)
                | Some s1 \<Rightarrow>
                    (Inr (), mirror_status (r_manuscript r) (r_reviewer r) ''accepted'' s1)))"

text \<open>\<^verbatim>\<open>POST /:id/decline\<close>\<close>

definition decline_review :: "caller \<Rightarrow> oid \<Rightarrow> store \<Rightarrow> (failure + unit) \<times> store" where
  "decline_review c rid s =
     (case findReview rid s of
        None \<Rightarrow> (Inl NotFound, s)
      | Some r \<Rightarrow>
          if r_reviewer r \<noteq> c_id c then (Inl Forbidden, s)
          else if r_status r \<noteq> ''pending'' then (Inl InvalidState, s)
          else
            let s1 = s\<lparr>reviews := filter (\<lambda>x. r_id x \<noteq> rid) (reviews s)\<rparr>;
                s2 = update_manuscript (r_manuscript r)
                       (\<lambda>m. m\<lparr>m_reviewAssignments :=
                          filter (\<lambda>a. ra_reviewer a \<noteq> r_reviewer r) (m_reviewAssignments m)\<rparr>) s1;
                s3 = update_user (r_reviewer r)
                       (\<lambda>u. u\<lparr>u_reviewAssignments :=
                          filter (\<lambda>i. i \<noteq> r_id r) (u_reviewAssignments u)\<rparr>) s2
            in (Inr (), s3))"

record submit_body =
  sr_recommendation :: "string option"
  sr_evaluation :: "evaluation option"
  sr_confidenceLevel :: "rat option"
  sr_strengths :: "string option"
  sr_weaknesses :: "string option"
  sr_specificComments :: "string option"
  sr_confidentialComments :: "string option"
  sr_suggestedReviewers :: "string list option"

definition isIn :: "string list \<Rightarrow> string option \<Rightarrow> bool" where
  "isIn vs x = (case x of None \<Rightarrow> False | Some v \<Rightarrow> v \<in> set vs)"

text \<open>\<^verbatim>\<open>PUT /:id/submit\<close>\<close>

definition submit_review ::
  "caller \<Rightarrow> oid \<Rightarrow> submit_body \<Rightarrow> date \<Rightarrow> store \<Rightarrow> (failure + review) \<times> store" where
  "submit_review c rid b now s =
     (case sr_evaluation b of
        None \<Rightarrow> (Inl ValidationErrors, s)
      | Some ev \<Rightarrow>
          if \<not> (isIn recommendation_enum (sr_recommendation b) \<and> truthy (sr_strengths b)
                \<and> truthy (sr_weaknesses b) \<and> truthy (sr_specificComments b))
          then (Inl ValidationErrors, s)
          else (case findReview rid s of
            None \<Rightarrow> (Inl NotFound, s)
          | Some r \<Rightarrow>
              if r_reviewer r \<noteq> c_id c then (Inl Forbidden, s)
              else if r_status r = ''completed'' then (Inl InvalidState, s)
              else
                let r1 = r\<lparr>r_recommendation := sr_recommendation b,
                          r_evaluation := ev,
                          r_confidenceLevel := sr_confidenceLevel b,
                          r_strengths := sr_strengths b,
                          r_weaknesses := sr_weaknesses b,
                          r_specificComments := sr_specificComments b,
                          r_confidentialComments := sr_confidentialComments b,
                          r_suggestedReviewers :=
                            (case sr_suggestedReviewers b of Some l \<Rightarrow> l | None \<Rightarrow> []),
                          r_status := ''completed'',
                          r_submittedDate := Some now\<rparr>
                in (case review_save now r r1 s of
                      None \<Rightarrow> (Inl ServerError, s)
                    | Some s1 \<Rightarrow>
                        let s2 = mirror_status (r_manuscript r) (r_reviewer r) ''completed'' s1;
                            s3 = update_manuscript (r_manuscript r)
                                   (\<lambda>m. if r_id r \<in> set (m_reviews m) then m
                                        else m\<lparr>m_reviews := m_reviews m @ [r_id r]\<rparr>) s2
                        in (Inr (review_pre_save now r r1), s3))))"

record submit_alt_body =
  sa_recommendation :: "string option"
  sa_originality :: "rat option"
  sa_methodology :: "rat option"
  sa_significance :: "rat option"
  sa_clarity :: "rat option"
  sa_comments :: "string option"
  sa_confidentialComments :: "string option"

text \<open>
  \<^verbatim>\<open>POST /:reviewId/submit\<close>, the second submission route. After the review is saved
  it sets the manuscript's status to \<^verbatim>\<open>'reviewed'\<close> when every review of the
  manuscript is completed, and saves the manuscript.
\<close>

definition submit_review_alt ::
  "caller \<Rightarrow> oid \<Rightarrow> submit_alt_body \<Rightarrow> date \<Rightarrow> store \<Rightarrow> (failure + review) \<times> store" where
  "submit_review_alt c rid b now s =
     (if \<not> (isIn recommendation_enum (sa_recommendation b) \<and> truthy (sa_comments b))
      then (Inl ValidationErrors, s)
      else case findReview rid s of
        None \<Rightarrow> (Inl NotFound, s)
      | Some r \<Rightarrow>
          if r_reviewer r \<noteq> c_id c then (Inl Forbidden, s)
          else if r_status r = ''completed'' then (Inl InvalidState, s)
          else
            let r1 = r\<lparr>r_recommendation := sa_recommendation b,
                      r_evaluation :=
                        \<lparr>originality = \<lparr>score = sa_originality b, comment = None\<rparr>,
                         significance = \<lparr>score = sa_significance b, comment = None\<rparr>,
                         methodology = \<lparr>score = sa_methodology b, comment = None\<rparr>,
                         clarity = \<lparr>score = sa_clarity b, comment = None\<rparr>,
                         literature = no_criterion\<rparr>,
                      r_confidentialComments := sa_confidentialComments b,
                      r_submittedDate := Some now,
                      r_status := ''completed''\<rparr>
            in (case review_save now r r1 s of
                  None \<Rightarrow> (Inl ServerError, s)
                | Some s1 \<Rightarrow>
                    (case findManuscript (r_manuscript r) s1 of
                       None \<Rightarrow> (Inr (review_pre_save now r r1), s1)
                     | Some m \<Rightarrow>
                         let allReviews = filter (\<lambda>x. r_manuscript x = r_manuscript r) (reviews s1);
                             completedReviews = filter (\<lambda>x. r_status x = ''completed'') allReviews
                         in if length completedReviews = length allReviews
                            then (case manuscript_save now m (m\<lparr>m_status := Some ''reviewed''\<rparr>) s1 of
                                    None \<Rightarrow> (Inl ServerError, s1)
                                  | Some s2 \<Rightarrow> (Inr (review_pre_save now r r1), s2))
                            else (Inr (review_pre_save now r r1), s1))))"

section \<open>Payment reconciliation\<close>

text \<open>
  What lies outside the repository is a parameter: the two calls to the payment gateway
  (\<open>None\<close> when the HTTP request throws), the random token of the payment model's hook,
  the HMAC-SHA512 of \<^verbatim>\<open>crypto\<close>, \<^verbatim>\<open>JSON.parse\<close> on the webhook body (\<open>None\<close> when
  it throws) and the configured gateway secret.
\<close>

record init_request =
  iq_email :: string
  iq_amount :: int
  iq_currency :: string
  iq_reference :: "string option"
  iq_manuscriptId :: oid
  iq_userId :: oid

record init_response =
  is_reference :: string
  is_authorization_url :: string
  is_access_code :: string
  is_raw :: string

record verify_response =
  v_status :: string
  v_id :: string
  v_gateway_response :: "string option"
  v_raw :: string

record event_metadata =
  em_manuscriptId :: "oid option"

record event_data =
  ed_metadata :: "event_metadata option"
  ed_reference :: "string option"

record webhook_event =
  ev_event :: string
  ev_data :: "event_data option"

record env =
  paystack_initialize :: "init_request \<Rightarrow> init_response option"
  paystack_verify :: "string \<Rightarrow> verify_response option"
  random_reference :: string
  hmac_sha512_hex :: "string \<Rightarrow> string \<Rightarrow> string"
  json_parse :: "string \<Rightarrow> webhook_event option"
  paystack_secret :: string

definition payment_status_enum :: "string list" where
  "payment_status_enum = [''pending'', ''processing'', ''completed'', ''failed'', ''cancelled'']"

text \<open>\<open>paymentReference\<close> is \<^verbatim>\<open>required: true\<close>; \<open>status\<close> has an enum.\<close>

definition payment_validate :: "payment \<Rightarrow> bool" where
  "payment_validate p =
     (p_paymentReference p \<noteq> None \<and> p_paymentReference p \<noteq> Some [] \<and>
      p_status p \<in> set payment_status_enum)"

text \<open>\<^verbatim>\<open>paymentSchema.pre('save')\<close>\<close>

definition payment_pre_save :: "env \<Rightarrow> payment \<Rightarrow> payment" where
  "payment_pre_save e p =
     (if \<not> truthy (p_paymentReference p)
      then p\<lparr>p_paymentReference := Some (random_reference e)\<rparr> else p)"

definition put_payment :: "payment \<Rightarrow> store \<Rightarrow> store" where
  "put_payment p s =
     (if p_id p \<in> set (map p_id (payments s))
      then s\<lparr>payments := map (\<lambda>x. if p_id x = p_id p then p else x) (payments s)\<rparr>
      else s\<lparr>payments := payments s @ [p]\<rparr>)"

text \<open>
  \<^verbatim>\<open>payment.save()\<close>: as for every model, the built-in validation runs first and the
  schema's \<^verbatim>\<open>pre('save')\<close> hook after it.
\<close>

definition payment_save :: "env \<Rightarrow> payment \<Rightarrow> store \<Rightarrow> store option" where
  "payment_save e p s =
     (if payment_validate p then Some (put_payment (payment_pre_save e p) s) else None)"

definition fresh_payment_id :: "store \<Rightarrow> oid" where
  "fresh_payment_id s = Suc (fold max (map p_id (payments s)) 0)"

text \<open>\<^verbatim>\<open>Math.round(amount * 0.10)\<close> on an integer amount: a half rounds up.\<close>

definition platform_fee :: "int \<Rightarrow> int" where
  "platform_fee amount = (amount + 5) div 10"

text \<open>\<^verbatim>\<open>Payment.findOne({manuscript: manuscriptId, status: 'completed'})\<close>\<close>

definition completedPayment :: "oid \<Rightarrow> store \<Rightarrow> payment option" where
  "completedPayment mid s =
     find (\<lambda>p. p_manuscript p = mid \<and> p_status p = ''completed'') (payments s)"

record initiate_reply =
  ir_authorization_url :: string
  ir_access_code :: string
  ir_reference :: string
  ir_amount :: int
  ir_platformFee :: int
  ir_vendorReceives :: int

text \<open>
  \<^verbatim>\<open>POST /initiate\<close>. The third component lists the requests sent to the gateway.
  \<open>submittedBy\<close> is populated; when no such user exists it is \<^verbatim>\<open>null\<close> and the
  ownership test throws.
\<close>

definition initiate ::
  "env \<Rightarrow> caller \<Rightarrow> oid \<Rightarrow> date \<Rightarrow> store \<Rightarrow>
     (failure + initiate_reply) \<times> store \<times> init_request list" where
  "initiate e c mid now s =
     (case findManuscript mid s of
        None \<Rightarrow> (Inl NotFound, s, [])
      | Some m \<Rightarrow>
          (case findUser (m_submittedBy m) s of
             None \<Rightarrow> (Inl ServerError, s, [])
           | Some author \<Rightarrow>
               if u_id author \<noteq> c_id c \<and> c_role c \<noteq> ''admin'' then (Inl Forbidden, s, [])
               else if m_status m \<noteq> Some ''accepted'' then (Inl InvalidState, s, [])
               else (case completedPayment mid s of
                  Some existingPayment \<Rightarrow>
                    (Inl (AlreadyPaid (p_paymentReference existingPayment)), s, [])
                | None \<Rightarrow>
                    (case c_email c of
                       None \<Rightarrow> (Inl NoEmail, s, [])
                     | Some userEmail \<Rightarrow>
                         if userEmail = [] then (Inl NoEmail, s, [])
                         else
                           let fee = 5000000;
                               amount = fee;
                               pf = platform_fee amount;
                               vr = amount - pf;
                               payment = \<lparr>p_id = fresh_payment_id s, p_manuscript = mid,
                                  p_user = c_id c, p_amount = amount, p_currency = ''NGN'',
                                  p_paymentReference = None, p_paystackReference = None,
                                  p_status = ''pending'', p_transactionId = None,
                                  p_authorizationUrl = None, p_accessCode = None,
                                  p_paystackData = None,
                                  p_metadata = \<lparr>publicationFee = fee, platformFee = pf,
                                     vendorReceives = vr, paymentFor = ''publication_fee''\<rparr>,
                                  p_paidAt = None, p_failureReason = None\<rparr>;
                               rq = \<lparr>iq_email = userEmail, iq_amount = amount,
                                  iq_currency = ''NGN'',
                                  iq_reference = p_paymentReference payment,
                                  iq_manuscriptId = mid, iq_userId = c_id c\<rparr>
                           in (case paystack_initialize e rq of
                                 None \<Rightarrow> (Inl GatewayError, s, [rq])
                               | Some d \<Rightarrow>
                                   let payment1 = payment\<lparr>
                                         p_paystackReference := Some (is_reference d),
                                         p_authorizationUrl := Some (is_authorization_url d),
                                         p_accessCode := Some (is_access_code d),
                                         p_paystackData := Some (is_raw d),
                                         p_status := ''processing''\<rparr>
                                   in (case payment_save e payment1 s of
                                         None \<Rightarrow> (Inl GatewayError, s, [rq])
                                       | Some s1 \<Rightarrow>
                                           let saved = payment_pre_save e payment1;
                                               m1 = m\<lparr>m_paymentReference := p_paymentReference saved\<rparr>
                                           in (case manuscript_save now m m1 s1 of
                                                 None \<Rightarrow> (Inl GatewayError, s1, [rq])
                                               | Some s2 \<Rightarrow>
                                                   (Inr \<lparr>ir_authorization_url = is_authorization_url d,
                                                      ir_access_code = is_access_code d,
                                                      ir_reference = is_reference d,
                                                      ir_amount = amount, ir_platformFee = pf,
                                                      ir_vendorReceives = vr\<rparr>, s2, [rq]))))))))"

text \<open>
  \<^verbatim>\<open>Payment.findOne({$or: [{paymentReference: reference}, {paystackReference: reference}]})\<close>
\<close>

definition findPaymentByReference :: "string \<Rightarrow> store \<Rightarrow> payment option" where
  "findPaymentByReference reference s =
     find (\<lambda>p. p_paymentReference p = Some reference \<or> p_paystackReference p = Some reference)
       (payments s)"

text \<open>
  \<^verbatim>\<open>POST /verify/:reference\<close>. \<open>payment.manuscript\<close> is populated when the payment is
  loaded; everything after the gateway call is inside the inner \<^verbatim>\<open>try\<close>, whose
  \<^verbatim>\<open>catch\<close> answers 500.
\<close>

definition verify ::
  "env \<Rightarrow> caller \<Rightarrow> string \<Rightarrow> date \<Rightarrow> store \<Rightarrow> (failure + payment) \<times> store" where
  "verify e c reference now s =
     (case findPaymentByReference reference s of
        None \<Rightarrow> (Inl NotFound, s)
      | Some p \<Rightarrow>
          if p_user p \<noteq> c_id c \<and> c_role c \<noteq> ''admin'' then (Inl Forbidden, s)
          else (case paystack_verify e reference of
            None \<Rightarrow> (Inl GatewayError, s)
          | Some paymentData \<Rightarrow>
              if v_status paymentData = ''success''
              then
                let p1 = p\<lparr>p_status := ''completed'', p_paidAt := Some now,
                          p_transactionId := Some (v_id paymentData),
                          p_paystackData := Some (v_raw paymentData)\<rparr>
                in (case payment_save e p1 s of
                      None \<Rightarrow> (Inl GatewayError, s)
                    | Some s1 \<Rightarrow>
                        (case findManuscript (p_manuscript p) s of
                           None \<Rightarrow> (Inl GatewayError, s1)
                         | Some m \<Rightarrow>
                             let m1 = m\<lparr>m_paymentCompleted := True,
                                       m_paymentReference := p_paymentReference p1\<rparr>
                             in (case manuscript_save now m m1 s1 of
                                   None \<Rightarrow> (Inl GatewayError, s1)
                                 | Some s2 \<Rightarrow> (Inr (payment_pre_save e p1), s2))))
              else
                let reason = (if truthy (v_gateway_response paymentData)
                              then v_gateway_response paymentData
                              else Some ''Payment was not successful'');
                    p1 = p\<lparr>p_status := ''failed'', p_failureReason := reason\<rparr>
                in (case payment_save e p1 s of
                      None \<Rightarrow> (Inl GatewayError, s)
                    | Some s1 \<Rightarrow> (Inl (VerificationFailed reason), s1))))"

text \<open>
  \<^verbatim>\<open>POST /webhook\<close>. On \<^verbatim>\<open>charge.success\<close> the handler reads the metadata and the
  reference for its log lines; the update of the manuscript is a comment in the source
  (``In a real implementation, update the manuscript status''). The answer is 200. This
  is the handler on the raw body its own \<^verbatim>\<open>express.raw\<close> parser delivers; where an
  application-wide JSON parser has consumed the body before, hashing the parsed body
  throws and the handler's \<^verbatim>\<open>catch\<close> answers 500, again without a write.
\<close>

definition webhook ::
  "env \<Rightarrow> string \<Rightarrow> string option \<Rightarrow> store \<Rightarrow> (failure + unit) \<times> store" where
  "webhook e rawBody signatureHeader s =
     (if Some (hmac_sha512_hex e (paystack_secret e) rawBody) \<noteq> signatureHeader
      then (Inl InvalidSignature, s)
      else case json_parse e rawBody of
        None \<Rightarrow> (Inl ServerError, s)
      | Some event \<Rightarrow>
          if ev_event event = ''charge.success''
          then (case ev_data event of
                  None \<Rightarrow> (Inl ServerError, s)
                | Some d \<Rightarrow>
                    (case ed_metadata d of
                       None \<Rightarrow> (Inl ServerError, s)
                     | Some md \<Rightarrow> (Inr (), s)))
          else (Inr (), s))"

section \<open>Predicates used to state the properties\<close>

text \<open>The caller owns the manuscript or is admin, and the manuscript's status is accepted.\<close>

definition payable_by :: "caller \<Rightarrow> oid \<Rightarrow> store \<Rightarrow> bool" where
  "payable_by c mid s =
     (case findManuscript mid s of
        None \<Rightarrow> False
      | Some m \<Rightarrow> (m_submittedBy m = c_id c \<or> c_role c = ''admin'')
                   \<and> m_status m = Some ''accepted'')"

text \<open>
  The scores that are present in an evaluation, their arithmetic mean, and the Number
  the hook's expression computes from them.
\<close>

definition present_scores :: "evaluation \<Rightarrow> rat list" where
  "present_scores ev =
     concat (map (\<lambda>c. case score c of None \<Rightarrow> [] | Some v \<Rightarrow> [v]) (criteria ev))"

definition mean_of :: "rat list \<Rightarrow> rat option" where
  "mean_of xs = (if xs = [] then None else Some (sum_list xs / of_nat (length xs)))"

definition js_mean :: "rat list \<Rightarrow> rat option" where
  "js_mean xs = (if xs = [] then None else Some (js_average xs))"

definition whole :: "rat \<Rightarrow> bool" where
  "whole v = (of_int \<lfloor>v\<rfloor> = v)"

text \<open>
  A stored review is well-scored when its scores lie in the schema's range, its
  \<open>overallScore\<close> is the Number computed from the scores present (none when no score is
  present), and it carries scores only once it is completed.
\<close>

definition review_ok :: "review \<Rightarrow> bool" where
  "review_ok r =
     (list_all (\<lambda>c. in_1_5 (score c)) (criteria (r_evaluation r)) \<and>
      r_overallScore r = js_mean (present_scores (r_evaluation r)) \<and>
      (r_status r = ''completed'' \<or> present_scores (r_evaluation r) = []))"

definition reviews_ok :: "store \<Rightarrow> bool" where
  "reviews_ok s = list_all review_ok (reviews s)"

text \<open>
  A request body that passes the checks of \<^verbatim>\<open>PUT /:id/submit\<close> and the schema's
  validators on the fields it supplies; likewise for \<^verbatim>\<open>POST /:reviewId/submit\<close>.
\<close>

definition submission_valid :: "submit_body \<Rightarrow> bool" where
  "submission_valid b =
     (isIn recommendation_enum (sr_recommendation b) \<and> truthy (sr_strengths b)
      \<and> truthy (sr_weaknesses b) \<and> truthy (sr_specificComments b)
      \<and> (case sr_evaluation b of
            None \<Rightarrow> False
          | Some ev \<Rightarrow> list_all (\<lambda>c. in_1_5 (score c)) (criteria ev))
      \<and> in_1_5 (sr_confidenceLevel b)
      \<and> maxlength 2000 (sr_strengths b) \<and> maxlength 2000 (sr_weaknesses b)
      \<and> maxlength 5000 (sr_specificComments b)
      \<and> maxlength 2000 (sr_confidentialComments b))"

definition alt_evaluation :: "submit_alt_body \<Rightarrow> evaluation" where
  "alt_evaluation b =
     \<lparr>originality = \<lparr>score = sa_originality b, comment = None\<rparr>,
      significance = \<lparr>score = sa_significance b, comment = None\<rparr>,
      methodology = \<lparr>score = sa_methodology b, comment = None\<rparr>,
      clarity = \<lparr>score = sa_clarity b, comment = None\<rparr>,
      literature = no_criterion\<rparr>"

definition alt_submission_valid :: "submit_alt_body \<Rightarrow> bool" where
  "alt_submission_valid b =
     (isIn recommendation_enum (sa_recommendation b) \<and> truthy (sa_comments b)
      \<and> in_1_5 (sa_originality b) \<and> in_1_5 (sa_methodology b)
      \<and> in_1_5 (sa_significance b) \<and> in_1_5 (sa_clarity b)
      \<and> maxlength 2000 (sa_confidentialComments b))"


text \<open>The reviews of a (manuscript, reviewer) pair, and the mirror entries of a reviewer.\<close>

definition reviews_for :: "oid \<Rightarrow> oid \<Rightarrow> store \<Rightarrow> review list" where
  "reviews_for mid rv s =
     filter (\<lambda>r. r_manuscript r = mid \<and> r_reviewer r = rv) (reviews s)"

definition mirror_entries :: "oid \<Rightarrow> oid \<Rightarrow> store \<Rightarrow> review_assignment list" where
  "mirror_entries mid rv s =
     concat (map (\<lambda>m. filter (\<lambda>a. ra_reviewer a = rv) (m_reviewAssignments m))
       (filter (\<lambda>m. m_id m = mid) (manuscripts s)))"

definition one_review_per_pair :: "store \<Rightarrow> bool" where
  "one_review_per_pair s = distinct (map (\<lambda>r. (r_manuscript r, r_reviewer r)) (reviews s))"

section \<open>Concrete stores used by the closed theorems\<close>

definition demo_users :: "user list" where
  "demo_users =
     [\<lparr>u_id = 1, u_role = ''author'', u_email = ''author@example.org'',
        u_firstName = ''Ada'', u_lastName = ''Author'', u_reviewAssignments = []\<rparr>,
      \<lparr>u_id = 7, u_role = ''reviewer'', u_email = ''reviewer@example.org'',
        u_firstName = ''Rex'', u_lastName = ''Reviewer'', u_reviewAssignments = [10]\<rparr>,
      \<lparr>u_id = 8, u_role = ''reviewer'', u_email = ''second@example.org'',
        u_firstName = ''Sam'', u_lastName = ''Second'', u_reviewAssignments = []\<rparr>,
      \<lparr>u_id = 100, u_role = ''editor'', u_email = ''editor@example.org'',
        u_firstName = ''Edna'', u_lastName = ''Editor'', u_reviewAssignments = []\<rparr>]"

definition author1 :: caller where
  "author1 = \<lparr>c_id = 1, c_role = ''author'', c_email = Some ''author@example.org''\<rparr>"

definition reviewer7 :: caller where
  "reviewer7 = \<lparr>c_id = 7, c_role = ''reviewer'', c_email = Some ''reviewer@example.org''\<rparr>"

definition editor100 :: caller where
  "editor100 = \<lparr>c_id = 100, c_role = ''editor'', c_email = Some ''editor@example.org''\<rparr>"

definition demo_manuscript :: "string \<Rightarrow> review_assignment list \<Rightarrow> manuscript" where
  "demo_manuscript st ras =
     \<lparr>m_id = 1, m_title = ''T'', m_submittedBy = 1, m_status = Some st,
      m_editorDecision = None, m_revisionDeadline = None, m_publicationDetails = None,
      m_paymentCompleted = False, m_paymentReference = None, m_submissionDate = Some 500,
      m_lastModified = 500, m_reviewAssignments = ras, m_reviews = [], m_editorNotes = []\<rparr>"

definition demo_assignment :: "string \<Rightarrow> review_assignment" where
  "demo_assignment st =
     \<lparr>ra_reviewer = 7, ra_assignedDate = 1000, ra_dueDate = 9000, ra_status = st\<rparr>"

definition demo_payment :: "string \<Rightarrow> payment" where
  "demo_payment st =
     \<lparr>p_id = 20, p_manuscript = 1, p_user = 1, p_amount = 5000000, p_currency = ''NGN'',
      p_paymentReference = Some ''PAY_123'', p_paystackReference = Some ''PSK_9'',
      p_status = st, p_transactionId = None, p_authorizationUrl = Some ''https://pay'',
      p_accessCode = Some ''ac'', p_paystackData = None,
      p_metadata = \<lparr>publicationFee = 5000000, platformFee = 500000,
         vendorReceives = 4500000, paymentFor = ''publication_fee''\<rparr>,
      p_paidAt = None, p_failureReason = None\<rparr>"

definition demo_store :: "manuscript list \<Rightarrow> review list \<Rightarrow> payment list \<Rightarrow> store" where
  "demo_store ms rs ps = \<lparr>manuscripts = ms, reviews = rs, payments = ps, users = demo_users\<rparr>"

definition decide :: "string \<Rightarrow> decision_body" where
  "decide d = \<lparr>b_decision = Some d, b_editorNotes = None, b_internalNotes = None,
     b_revisionInstructions = None, b_revisionDeadline = None\<rparr>"

definition score_of :: "rat option \<Rightarrow> criterion" where
  "score_of x = \<lparr>score = x, comment = None\<rparr>"

text \<open>A complete submission with the given scores for originality, significance and clarity.\<close>

definition demo_submission :: "rat option \<Rightarrow> rat option \<Rightarrow> rat option \<Rightarrow> submit_body" where
  "demo_submission x y z =
     \<lparr>sr_recommendation = Some ''accept'',
      sr_evaluation = Some \<lparr>originality = score_of x, significance = score_of y,
         methodology = score_of None, clarity = score_of z, literature = score_of None\<rparr>,
      sr_confidenceLevel = None, sr_strengths = Some ''sound'', sr_weaknesses = Some ''short'',
      sr_specificComments = Some ''none'', sr_confidentialComments = None,
      sr_suggestedReviewers = None\<rparr>"

text \<open>A gateway that reports every transaction as successful, and a stand-in for the keyed hash.\<close>

definition demo_env :: env where
  "demo_env =
     \<lparr>paystack_initialize = (\<lambda>rq. Some \<lparr>is_reference = ''PSK_9'',
          is_authorization_url = ''https://pay'', is_access_code = ''ac'', is_raw = ''{}''\<rparr>),
      paystack_verify = (\<lambda>r. Some \<lparr>v_status = ''success'', v_id = ''4099'',
          v_gateway_response = Some ''Successful'', v_raw = ''{}''\<rparr>),
      random_reference = ''PAY_1_ABC'',
      hmac_sha512_hex = (\<lambda>k b. k @ b),
      json_parse = (\<lambda>b. Some \<lparr>ev_event = ''charge.success'',
          ev_data = Some \<lparr>ed_metadata = Some \<lparr>em_manuscriptId = Some 1\<rparr>,
                          ed_reference = Some ''PAY_123''\<rparr>\<rparr>),
      paystack_secret = ''sk''\<rparr>"

section \<open>Facts about the store operations\<close>

lemmas demo_defs = demo_users_def author1_def reviewer7_def editor100_def demo_manuscript_def
  demo_assignment_def demo_payment_def demo_store_def decide_def demo_env_def

lemma find_map_replace:
  assumes "find Q xs = Some p" and "Q p'"
  shows "find Q (map (\<lambda>x. if key x = key p then p' else x) xs) = Some p'"
  using assms(1)
proof (induction xs)
  case Nil
  then show ?case by simp
next
  case (Cons x xs)
  show ?case
  proof (cases "key x = key p")
    case True
    then show ?thesis using assms(2) by simp
  next
    case False
    have "\<not> Q x"
    proof
      assume "Q x"
      then have "x = p" using Cons.prems by simp
      then show False using False by simp
    qed
    then show ?thesis using Cons False by simp
  qed
qed

lemma find_key_mem: "find Q xs = Some p \<Longrightarrow> key p \<in> set (map key xs)"
  by (auto simp: find_Some_iff)

lemma findUser_id: "findUser i s = Some u \<Longrightarrow> u_id u = i"
  by (auto simp: findUser_def find_Some_iff)

lemma statusMap_outside:
  "d \<notin> set editor_decision_enum \<Longrightarrow>
     statusMap d = (if d \<in> set object_prototype_keys then Inherited else Undefined)"
  by (simp add: statusMap_def js_property_def editor_decision_enum_def)

lemma statusMap_inside:
  "d \<in> set editor_decision_enum \<Longrightarrow>
     \<exists>st. statusMap d = Own st \<and> st \<in> set manuscript_status_enum
        \<and> (st = ''accepted'') = (d = ''accept'')"
  by (auto simp: statusMap_def js_property_def editor_decision_enum_def
      manuscript_status_enum_def)

text \<open>The gate of make-decision counts exactly the reviews whose status is \<open>pending\<close> or
  \<open>accepted\<close>; the review schema has no status \<open>accepted\<close>.\<close>

lemma pendingReviews_zero_iff:
  "pendingReviews mid s = 0 \<longleftrightarrow>
     (\<forall>r \<in> set (reviews s). r_manuscript r = mid \<longrightarrow>
        r_status r \<noteq> ''pending'' \<and> r_status r \<noteq> ''accepted'')"
  by (auto simp: pendingReviews_def filter_empty_conv)

lemma make_decision_pending:
  assumes "authorize [''editor'', ''admin''] c" and "findManuscript mid s = Some m"
    and "0 < pendingReviews mid s"
  shows "make_decision c mid b now s = (Inl PendingReviews, s)"
  using assms by (simp add: make_decision_def)

lemma make_decision_valid_decision:
  assumes "authorize [''editor'', ''admin''] c" and "findManuscript mid s = Some m"
    and "pendingReviews mid s = 0" and "b_decision b = Some d"
    and "d \<in> set editor_decision_enum"
  shows "\<exists>s'. make_decision c mid b now s =
           (Inr \<lparr>newStatus = status_of (statusMap d),
                 requiresPayment = (d = ''accept'')\<rparr>, s')"
proof -
  obtain st where st: "statusMap d = Own st" "st \<in> set manuscript_status_enum"
      "(st = ''accepted'') = (d = ''accept'')"
    using statusMap_inside[OF assms(5)] by blast
  have "manuscript_validate
          (x\<lparr>m_status := Some st, m_editorDecision := Some \<lparr>decision = d, decidedBy = u,
              decidedAt = now, d_notes = n\<rparr>\<rparr>)" for x u n
    using assms(5) st(2) by (simp add: manuscript_validate_def)
  then show ?thesis
    using assms(1-4) st(1,3)
    by (simp add: make_decision_def Let_def manuscript_save_def status_of_def
        status_castable_def)
qed

lemma submit_back_always_rejected:
  assumes "authorize [''editor'', ''admin''] c" and "findManuscript mid s = Some m"
  shows "submit_back c mid b now s = (Inl ServerError, s)"
proof -
  have "manuscript_save now m
          (x\<lparr>m_status := Some ''submitted-back'', m_revisionDeadline := dl\<rparr>) s = None" for x dl
    by (simp add: manuscript_save_def manuscript_validate_def manuscript_status_enum_def)
  then show ?thesis using assms by (simp add: submit_back_def Let_def)
qed

lemma publish_ignores_payment:
  assumes "authorize [''editor'', ''admin''] c" and "findManuscript mid s = Some m"
    and "m_status m = Some ''accepted''" and "manuscript_validate m"
  shows "\<exists>pd s'. publish c mid b now s = (Inr pd, s')"
proof -
  have "manuscript_validate (m\<lparr>m_status := Some ''published'', m_publicationDetails := pd\<rparr>)"
    for pd
    using assms(4) by (simp add: manuscript_validate_def manuscript_status_enum_def)
  then show ?thesis using assms(1-3) by (simp add: publish_def Let_def manuscript_save_def)
qed

lemma webhook_store_unchanged: "snd (webhook e rawBody sig s) = s"
  by (simp add: webhook_def split: option.splits)

lemma webhook_bad_signature:
  "sig \<noteq> Some (hmac_sha512_hex e (paystack_secret e) rawBody) \<Longrightarrow>
     webhook e rawBody sig s = (Inl InvalidSignature, s)"
  by (auto simp: webhook_def)

lemma initiate_not_payable:
  assumes "\<not> payable_by c mid s"
  shows "\<exists>f. initiate e c mid now s = (Inl f, s, [])"
proof (cases "findManuscript mid s")
  case None
  then show ?thesis by (simp add: initiate_def)
next
  case (Some m)
  show ?thesis
  proof (cases "findUser (m_submittedBy m) s")
    case None
    with Some show ?thesis by (simp add: initiate_def)
  next
    case (Some a)
    with \<open>findManuscript mid s = Some m\<close> assms findUser_id[OF Some] show ?thesis
      by (auto simp: initiate_def payable_by_def)
  qed
qed

lemma initiate_already_paid:
  assumes "completedPayment mid s = Some ex"
  shows "\<exists>f. initiate e c mid now s = (Inl f, s, [])"
  using assms by (auto simp: initiate_def split: option.splits)

lemma initiate_surfaces_reference:
  assumes "completedPayment mid s = Some ex" and "payable_by c mid s"
    and "findManuscript mid s = Some m" and "findUser (m_submittedBy m) s = Some a"
  shows "initiate e c mid now s = (Inl (AlreadyPaid (p_paymentReference ex)), s, [])"
  using assms findUser_id[OF assms(4)] by (auto simp: initiate_def payable_by_def)

lemma collected_eq_present:
  assumes "list_all (\<lambda>c. in_1_5 (score c)) (criteria ev)"
  shows "collected_scores ev = present_scores ev"
proof -
  have "map (\<lambda>c. case score c of None \<Rightarrow> [] | Some v \<Rightarrow> if v \<noteq> 0 then [v] else []) (criteria ev)
      = map (\<lambda>c. case score c of None \<Rightarrow> [] | Some v \<Rightarrow> [v]) (criteria ev)"
    using assms
    by (intro map_cong refl) (auto simp: list_all_iff in_1_5_def split: option.splits)
  then show ?thesis
    by (simp only: collected_scores_def present_scores_def)
qed

lemma review_pre_save_ok:
  assumes "list_all (\<lambda>c. in_1_5 (score c)) (criteria (r_evaluation r))"
    and "present_scores (r_evaluation r) = [] \<Longrightarrow> r_overallScore r = None"
    and "r_status r = ''completed'' \<or> present_scores (r_evaluation r) = []"
  shows "review_ok (review_pre_save now old r)"
  using assms collected_eq_present[OF assms(1)]
  by (auto simp: review_ok_def review_pre_save_def Let_def js_mean_def)

lemma review_pre_save_eval [simp]:
  "r_evaluation (review_pre_save now old r) = r_evaluation r"
  by (simp add: review_pre_save_def Let_def)

lemma review_pre_save_id [simp]: "r_id (review_pre_save now old r) = r_id r"
  by (simp add: review_pre_save_def Let_def)

lemma put_review_ok:
  assumes "reviews_ok s" and "review_ok r"
  shows "reviews_ok (put_review r s)"
  using assms by (auto simp: reviews_ok_def put_review_def list_all_iff)

lemma reviews_update_manuscript [simp]: "reviews (update_manuscript mid f s) = reviews s"
  by (simp add: update_manuscript_def)

lemma reviews_update_user [simp]: "reviews (update_user uid f s) = reviews s"
  by (simp add: update_user_def)

lemma reviews_mirror_status [simp]: "reviews (mirror_status mid rv st s) = reviews s"
  by (simp add: mirror_status_def)

lemma reviews_put_manuscript [simp]: "reviews (put_manuscript m s) = reviews s"
  by (simp add: put_manuscript_def)

lemma reviews_ok_update_manuscript [simp]:
  "reviews_ok (update_manuscript mid f s) = reviews_ok s"
  by (simp add: reviews_ok_def)

lemma reviews_ok_update_user [simp]: "reviews_ok (update_user uid f s) = reviews_ok s"
  by (simp add: reviews_ok_def)

lemma reviews_ok_mirror_status [simp]: "reviews_ok (mirror_status mid rv st s) = reviews_ok s"
  by (simp add: reviews_ok_def)

lemma reviews_ok_put_manuscript [simp]: "reviews_ok (put_manuscript m s) = reviews_ok s"
  by (simp add: reviews_ok_def)

lemma manuscript_save_reviews:
  "manuscript_save now old m s = Some s' \<Longrightarrow> reviews s' = reviews s"
  by (auto simp: manuscript_save_def split: if_splits)

lemma findReview_mem: "findReview rid s = Some r \<Longrightarrow> r \<in> set (reviews s)"
  by (auto simp: findReview_def find_Some_iff)

lemma stored_review_ok: "reviews_ok s \<Longrightarrow> findReview rid s = Some r \<Longrightarrow> review_ok r"
  using findReview_mem by (auto simp: reviews_ok_def list_all_iff)

lemma new_review_validate: "review_validate (new_review i mid rv by due now)"
  by (simp add: review_validate_def new_review_def review_status_enum_def criteria_def
      no_criterion_def in_1_5_def maxlength_def)

lemma new_review_saved_ok: "review_ok (review_pre_save now old (new_review i mid rv by due now))"
  by (rule review_pre_save_ok)
     (simp_all add: new_review_def criteria_def no_criterion_def in_1_5_def present_scores_def)

lemma assign_loop_new:
  assumes "findUser rv s = Some u" and "findReviewFor mid rv s = None"
  shows "assign_loop c mid due now (rv # rvs) acc s =
     assign_loop c mid due now rvs
       (acc @ [review_pre_save now (new_review (fresh_review_id s) mid rv (c_id c) due now)
                 (new_review (fresh_review_id s) mid rv (c_id c) due now)])
       (update_user rv (\<lambda>u. u\<lparr>u_reviewAssignments := u_reviewAssignments u @ [fresh_review_id s]\<rparr>)
         (update_manuscript mid
            (\<lambda>m. m\<lparr>m_reviewAssignments := m_reviewAssignments m @
                 [\<lparr>ra_reviewer = rv, ra_assignedDate = now, ra_dueDate = due,
                   ra_status = ''pending''\<rparr>]\<rparr>)
            (put_review (review_pre_save now
                 (new_review (fresh_review_id s) mid rv (c_id c) due now)
                 (new_review (fresh_review_id s) mid rv (c_id c) due now)) s)))"
proof -
  have "r_id (new_review (fresh_review_id s) mid rv (c_id c) due now) = fresh_review_id s"
    by (simp add: new_review_def)
  then show ?thesis
    using assms new_review_validate[of "fresh_review_id s" mid rv "c_id c" due now]
    by (simp add: review_save_def Let_def)
qed

lemma assign_loop_ok:
  "reviews_ok s \<Longrightarrow> reviews_ok (snd (assign_loop c mid due now rvs acc s))"
proof (induction rvs arbitrary: acc s)
  case Nil
  then show ?case by simp
next
  case (Cons rv rvs)
  show ?case
  proof (cases "findUser rv s")
    case None
    then show ?thesis using Cons by simp
  next
    case (Some u)
    show ?thesis
    proof (cases "findReviewFor mid rv s")
      case (Some ex)
      then show ?thesis using Cons \<open>findUser rv s = Some u\<close> by simp
    next
      case None
      let ?r = "new_review (fresh_review_id s) mid rv (c_id c) due now"
      have ok: "reviews_ok (put_review (review_pre_save now ?r ?r) s)"
        using Cons.prems new_review_saved_ok by (rule put_review_ok)
      show ?thesis
        unfolding assign_loop_new[OF \<open>findUser rv s = Some u\<close> None]
        by (rule Cons.IH) (simp add: ok)
    qed
  qed
qed

lemma assign_ok: "reviews_ok s \<Longrightarrow> reviews_ok (snd (assign c mid rvs dd now s))"
proof -
  assume ok: "reviews_ok s"
  have "reviews_ok (snd (assign_loop c mid due now rvs [] s))" for due
    using ok by (rule assign_loop_ok)
  then show ?thesis using ok
    by (auto simp: assign_def Let_def split: option.splits prod.splits)
      (metis snd_conv)+
qed

lemma accept_ok:
  assumes "reviews_ok s"
  shows "reviews_ok (snd (accept_review c rid now s))"
proof (cases "findReview rid s")
  case None
  then show ?thesis using assms by (simp add: accept_review_def)
next
  case (Some r)
  have rok: "review_ok r" using assms Some by (rule stored_review_ok)
  have "review_ok (review_pre_save now r (r\<lparr>r_status := ''in-progress''\<rparr>))"
    if "r_status r = ''pending''"
    using rok that by (intro review_pre_save_ok) (auto simp: review_ok_def js_mean_def)
  then show ?thesis using Some assms
    by (auto simp: accept_review_def review_save_def put_review_ok)
qed

lemma decline_ok:
  assumes "reviews_ok s"
  shows "reviews_ok (snd (decline_review c rid s))"
  using assms
  by (auto simp: decline_review_def Let_def reviews_ok_def list_all_iff split: option.splits)

lemma submit_saved_ok:
  assumes "review_ok r" and "r_status r \<noteq> ''completed''"
    and "r_overallScore r1 = r_overallScore r" and "r_status r1 = ''completed''"
    and "review_validate r1"
  shows "review_ok (review_pre_save now r r1)"
proof (rule review_pre_save_ok)
  show "list_all (\<lambda>c. in_1_5 (score c)) (criteria (r_evaluation r1))"
    using assms(5) by (simp add: review_validate_def)
  show "r_overallScore r1 = None"
    using assms(1-3) by (auto simp: review_ok_def js_mean_def)
  show "r_status r1 = ''completed'' \<or> present_scores (r_evaluation r1) = []"
    using assms(4) by simp
qed

lemma submit_ok:
  assumes "reviews_ok s"
  shows "reviews_ok (snd (submit_review c rid b now s))"
proof (cases "findReview rid s")
  case None
  then show ?thesis using assms by (simp add: submit_review_def split: option.splits)
next
  case (Some r)
  have rok: "review_ok r" using assms Some by (rule stored_review_ok)
  show ?thesis using Some assms rok
    by (auto simp: submit_review_def review_save_def Let_def
        intro!: put_review_ok submit_saved_ok split: option.splits)
qed

lemma submit_alt_ok:
  assumes "reviews_ok s"
  shows "reviews_ok (snd (submit_review_alt c rid b now s))"
proof (cases "findReview rid s")
  case None
  then show ?thesis using assms by (simp add: submit_review_alt_def split: option.splits)
next
  case (Some r)
  have rok: "review_ok r" using assms Some by (rule stored_review_ok)
  show ?thesis using Some assms rok
    by (auto simp: submit_review_alt_def review_save_def Let_def reviews_ok_def[of "put_manuscript _ _"]
        manuscript_save_def
        intro!: put_review_ok submit_saved_ok split: option.splits)
qed

lemma submit_reply_mean:
  assumes "reviews_ok s" and "fst (submit_review c rid b now s) = Inr r'"
  shows "sr_evaluation b = Some (r_evaluation r')
       \<and> r_overallScore r' = js_mean (present_scores (r_evaluation r'))"
proof (cases "findReview rid s")
  case None
  then show ?thesis using assms by (auto simp: submit_review_def split: option.splits if_splits)
next
  case (Some r)
  have rok: "review_ok r" using assms(1) Some by (rule stored_review_ok)
  obtain ev where ev: "sr_evaluation b = Some ev"
    using assms(2) by (cases "sr_evaluation b") (auto simp: submit_review_def)
  let ?r1 = "r\<lparr>r_recommendation := sr_recommendation b,
                          r_evaluation := ev,
                          r_confidenceLevel := sr_confidenceLevel b,
                          r_strengths := sr_strengths b,
                          r_weaknesses := sr_weaknesses b,
                          r_specificComments := sr_specificComments b,
                          r_confidentialComments := sr_confidentialComments b,
                          r_suggestedReviewers :=
                            (case sr_suggestedReviewers b of Some l \<Rightarrow> l | None \<Rightarrow> []),
                          r_status := ''completed'',
                          r_submittedDate := Some now\<rparr>"
  from assms(2) Some ev have r': "r' = review_pre_save now r ?r1" and v: "review_validate ?r1"
    and nc: "r_status r \<noteq> ''completed''"
    by (auto simp: submit_review_def review_save_def Let_def split: if_splits option.splits)
  have "review_ok (review_pre_save now r ?r1)"
    using rok nc v by (intro submit_saved_ok) simp_all
  then show ?thesis using r' ev by (simp add: review_ok_def)
qed

lemma fold_max_ge: "x \<in> set xs \<Longrightarrow> x \<le> fold max xs (a::nat)"
proof (induction xs arbitrary: a)
  case Nil
  then show ?case by simp
next
  case (Cons y ys)
  have mono: "b \<le> fold max ys b" for b :: nat
    by (induction ys arbitrary: b) (auto intro: order_trans[OF max.cobounded2])
  show ?case
  proof (cases "x = y")
    case True
    then show ?thesis using mono[of "max y a"] by simp
  next
    case False
    then show ?thesis using Cons by simp
  qed
qed

lemma fresh_review_id_new: "fresh_review_id s \<notin> set (map r_id (reviews s))"
proof
  assume "fresh_review_id s \<in> set (map r_id (reviews s))"
  then have "fresh_review_id s \<le> fold max (map r_id (reviews s)) 0"
    by (rule fold_max_ge)
  then show False by (simp add: fresh_review_id_def)
qed

lemma put_fresh_review:
  "r_id r = fresh_review_id s \<Longrightarrow> reviews (put_review r s) = reviews s @ [r]"
  using fresh_review_id_new[of s] by (simp add: put_review_def)




lemma users_update_manuscript [simp]: "users (update_manuscript mid f s) = users s"
  by (simp add: update_manuscript_def)

lemma manuscripts_update_user [simp]: "manuscripts (update_user uid f s) = manuscripts s"
  by (simp add: update_user_def)

lemma one_review_per_pair_update_manuscript [simp]:
  "one_review_per_pair (update_manuscript mid f s) = one_review_per_pair s"
  by (simp add: one_review_per_pair_def)

lemma one_review_per_pair_update_user [simp]:
  "one_review_per_pair (update_user uid f s) = one_review_per_pair s"
  by (simp add: one_review_per_pair_def)

lemma new_review_pair [simp]:
  "r_manuscript (new_review i mid rv by due now) = mid"
  "r_reviewer (new_review i mid rv by due now) = rv"
  by (simp_all add: new_review_def)





lemma mirror_entries_update_user [simp]:
  "mirror_entries mid rv (update_user uid f s) = mirror_entries mid rv s"
  by (simp add: mirror_entries_def)

lemma mirror_entries_reviews_update [simp]:
  "mirror_entries mid rv (s\<lparr>reviews := rs\<rparr>) = mirror_entries mid rv s"
  by (simp add: mirror_entries_def)


lemma reviews_for_update_manuscript [simp]:
  "reviews_for mid rv (update_manuscript mid' f s) = reviews_for mid rv s"
  by (simp add: reviews_for_def)

lemma reviews_for_update_user [simp]:
  "reviews_for mid rv (update_user uid f s) = reviews_for mid rv s"
  by (simp add: reviews_for_def)

lemma findReviewFor_update_manuscript [simp]:
  "findReviewFor mid rv (update_manuscript mid' f s) = findReviewFor mid rv s"
  by (simp add: findReviewFor_def)

lemma findReviewFor_update_user [simp]:
  "findReviewFor mid rv (update_user uid f s) = findReviewFor mid rv s"
  by (simp add: findReviewFor_def)





lemma map_replace_twice:
  assumes "key a = k"
  shows "map (\<lambda>x. if key x = k then b else x) (map (\<lambda>x. if key x = k then a else x) xs)
       = map (\<lambda>x. if key x = k then b else x) xs"
  using assms by (induction xs) auto

lemma put_payment_stored:
  assumes "find Q (payments s) = Some p" and "p_id p' = p_id p"
  shows "put_payment p' s
       = s\<lparr>payments := map (\<lambda>x. if p_id x = p_id p then p' else x) (payments s)\<rparr>"
  using find_key_mem[OF assms(1), of p_id] assms(2) by (simp add: put_payment_def)

text \<open>The payment and the manuscript as a successful verification at time \<open>t\<close> leaves them.\<close>

lemma verify_success:
  assumes "findPaymentByReference ref s = Some p" and "payment_validate p"
    and "p_user p = c_id c \<or> c_role c = ''admin''"
    and "paystack_verify e ref = Some d" and "v_status d = ''success''"
    and "findManuscript (p_manuscript p) s = Some m" and "manuscript_validate m"
  shows "verify e c ref t s =
     (Inr (p\<lparr>p_status := ''completed'', p_paidAt := Some t,
              p_transactionId := Some (v_id d), p_paystackData := Some (v_raw d)\<rparr>),
      s\<lparr>payments := map (\<lambda>x. if p_id x = p_id p
            then p\<lparr>p_status := ''completed'', p_paidAt := Some t,
                   p_transactionId := Some (v_id d), p_paystackData := Some (v_raw d)\<rparr>
            else x) (payments s),
        manuscripts := map (\<lambda>x. if m_id x = m_id m
            then m\<lparr>m_paymentCompleted := True, m_paymentReference := p_paymentReference p,
                   m_lastModified := t\<rparr>
            else x) (manuscripts s)\<rparr>)"
proof -
  let ?P = "p\<lparr>p_status := ''completed'', p_paidAt := Some t,
              p_transactionId := Some (v_id d), p_paystackData := Some (v_raw d)\<rparr>"
  have v: "payment_validate ?P"
    using assms(2) by (simp add: payment_validate_def payment_status_enum_def)
  have h: "payment_pre_save e ?P = ?P"
    using assms(2) by (auto simp: payment_pre_save_def payment_validate_def truthy_def)
  have put: "put_payment ?P s
      = s\<lparr>payments := map (\<lambda>x. if p_id x = p_id p then ?P else x) (payments s)\<rparr>"
    using assms(1) unfolding findPaymentByReference_def by (rule put_payment_stored) simp
  have sv: "payment_save e ?P s
      = Some (s\<lparr>payments := map (\<lambda>x. if p_id x = p_id p then ?P else x) (payments s)\<rparr>)"
    using v h put by (simp add: payment_save_def)
  let ?M = "m\<lparr>m_paymentCompleted := True, m_paymentReference := p_paymentReference p\<rparr>"
  have mv: "manuscript_validate ?M"
    using assms(7) by (simp add: manuscript_validate_def)
  have mh: "manuscript_pre_save t m ?M = ?M\<lparr>m_lastModified := t\<rparr>"
    by (simp add: manuscript_pre_save_def)
  show ?thesis
    using assms(1,3-6) sv mv mh h
    by (auto simp: verify_def Let_def manuscript_save_def put_manuscript_def)
qed

lemma verified_payment_found:
  assumes "findPaymentByReference ref s = Some p"
    and "p_paymentReference p' = p_paymentReference p"
    and "p_paystackReference p' = p_paystackReference p"
  shows "findPaymentByReference ref
           (s\<lparr>payments := map (\<lambda>x. if p_id x = p_id p then p' else x) (payments s),
              manuscripts := ms\<rparr>) = Some p'"
proof -
  have "p_paymentReference p = Some ref \<or> p_paystackReference p = Some ref"
    using assms(1) by (auto simp: findPaymentByReference_def find_Some_iff)
  then have "p_paymentReference p' = Some ref \<or> p_paystackReference p' = Some ref"
    using assms(2,3) by simp
  with assms(1) show ?thesis
    unfolding findPaymentByReference_def by (simp add: find_map_replace)
qed

lemma verified_manuscript_found:
  assumes "findManuscript mid s = Some m" and "m_id m' = m_id m"
  shows "findManuscript mid
           (s\<lparr>payments := ps,
              manuscripts := map (\<lambda>x. if m_id x = m_id m then m' else x) (manuscripts s)\<rparr>)
         = Some m'"
proof -
  have "m_id m = mid" using assms(1) by (auto simp: findManuscript_def find_Some_iff)
  then have "m_id m' = mid" using assms(2) by simp
  with assms(1) show ?thesis
    unfolding findManuscript_def by (simp add: find_map_replace)
qed

lemma log2floor_small: "n < 2 \<Longrightarrow> log2floor n = 0"
  by (simp add: log2floor.simps)

lemma log2floor_step: "2 \<le> n \<Longrightarrow> log2floor n = Suc (log2floor (n div 2))"
  by (subst log2floor.simps) simp

lemma floor_numeral_div: "\<lfloor>(numeral a :: rat) / numeral b\<rfloor> = numeral a div numeral b"
  using floor_divide_of_int_eq[of "numeral a" "numeral b", where ?'a = rat] by simp

lemma ceiling_numeral_div:
  "\<lceil>(numeral a :: rat) / numeral b\<rceil> = - ((- numeral a) div numeral b)"
  using floor_divide_of_int_eq[of "- numeral a" "numeral b", where ?'a = rat]
  by (simp add: ceiling_def)

lemmas double_eval = to_double_def binade_def log2floor_small log2floor_step pow2_def
  round_half_even_def Let_def js_add_def js_div_def js_average_def floor_numeral_div
  ceiling_numeral_div

lemma log2floor_less: "n < 2 ^ m \<Longrightarrow> 0 < m \<Longrightarrow> log2floor n < m"
proof (induction n arbitrary: m rule: log2floor.induct)
  case (1 n)
  show ?case
  proof (cases "n < 2")
    case True
    then show ?thesis using 1 by (simp add: log2floor_small)
  next
    case False
    then obtain k where m: "m = Suc k" using 1(3) by (cases m) auto
    have "k \<noteq> 0" using False 1(2) m by (cases k) auto
    moreover have "n div 2 < 2 ^ k" using 1(2) m by simp
    ultimately have "log2floor (n div 2) < k" using 1(1)[OF False, of k] by simp
    then show ?thesis using False m by (simp add: log2floor_step)
  qed
qed

lemma round_half_even_int: "round_half_even (of_int z) = z"
  by (simp add: round_half_even_def)

text \<open>A whole number below \<open>2 ^ 53\<close> is a double.\<close>

lemma to_double_nat:
  assumes "k < 2 ^ 53"
  shows "to_double (of_nat k) = of_nat k"
proof (cases "k = 0")
  case True
  then show ?thesis by (simp add: to_double_def)
next
  case False
  define e where "e = log2floor k"
  have e: "e \<le> 52" using log2floor_less[OF assms] by (simp add: e_def)
  define j where "j = 52 - e"
  have b: "binade (of_nat k) = int e"
    using False by (simp add: binade_def e_def)
  have "int e - 52 = - int j" using e by (simp add: j_def)
  then have p: "pow2 (int e - 52) = 1 / 2 ^ j"
    by (cases "j = 0") (simp_all add: pow2_def)
  have "(of_nat k :: rat) * 2 ^ j = of_int (int k * 2 ^ j)" by simp
  then have r: "round_half_even ((of_nat k :: rat) * 2 ^ j) = int k * 2 ^ j"
    by (simp only: round_half_even_int)
  have "\<bar>of_nat k :: rat\<bar> = of_nat k" by simp
  then show ?thesis
    using False by (simp add: to_double_def b p r Let_def)
qed

lemma foldl_js_add_nat:
  "a + sum_list ns < 2 ^ 53 \<Longrightarrow>
     foldl js_add (of_nat a) (map of_nat ns) = of_nat (a + sum_list ns)"
proof (induction ns arbitrary: a)
  case Nil
  then show ?case by simp
next
  case (Cons n ns)
  have "a + n < 2 ^ 53" using Cons.prems by simp
  then have "js_add (of_nat a) (of_nat n) = of_nat (a + n)"
    using to_double_nat[of "a + n"] by (simp add: js_add_def)
  moreover have "(a + n) + sum_list ns < 2 ^ 53" using Cons.prems by simp
  ultimately show ?case using Cons.IH[of "a + n"] by (simp add: add.assoc)
qed

lemma whole_score_nat:
  assumes "whole v" and "1 \<le> v" and "v \<le> 5"
  shows "\<exists>n. v = of_nat n \<and> n \<le> 5"
proof -
  obtain z :: int where z: "v = of_int z"
    using assms(1) unfolding whole_def by metis
  have "1 \<le> z" "z \<le> 5" using assms(2,3) z by simp_all
  then have "v = of_nat (nat z)" "nat z \<le> 5" using z by simp_all
  then show ?thesis by blast
qed

lemma whole_scores_nat:
  assumes "list_all (\<lambda>v. whole v \<and> 1 \<le> v \<and> v \<le> 5) xs"
  shows "\<exists>ns. xs = map of_nat ns \<and> sum_list ns \<le> 5 * length xs"
  using assms
proof (induction xs)
  case Nil
  then show ?case by simp
next
  case (Cons x xs)
  then obtain ns where ns: "xs = map of_nat ns" "sum_list ns \<le> 5 * length xs" by auto
  obtain n where n: "x = of_nat n" "n \<le> 5" using Cons.prems whole_score_nat by auto
  show ?case using ns n by (intro exI[of _ "n # ns"]) simp
qed

lemma js_average_whole:
  assumes "list_all (\<lambda>v. whole v \<and> 1 \<le> v \<and> v \<le> 5) xs" and "length xs \<le> 5"
  shows "js_average xs = to_double (sum_list xs / of_nat (length xs))"
proof -
  obtain ns where ns: "xs = map of_nat ns" "sum_list ns \<le> 5 * length xs"
    using whole_scores_nat[OF assms(1)] by blast
  have "sum_list ns \<le> 25" using ns(2) assms(2) by simp
  then have "0 + sum_list ns < 2 ^ 53" by simp
  then have "foldl js_add (of_nat 0) (map of_nat ns) = (of_nat (0 + sum_list ns) :: rat)"
    by (rule foldl_js_add_nat)
  then have "foldl js_add 0 xs = sum_list xs"
    using ns(1) by (simp add: sum_list_of_nat comp_def)
  then show ?thesis by (simp add: js_average_def js_div_def)
qed

lemma present_scores_length: "length (present_scores ev) \<le> 5"
  by (simp add: present_scores_def criteria_def split: option.splits)

lemma present_scores_range:
  assumes "list_all (\<lambda>c. in_1_5 (score c)) (criteria ev)"
  shows "list_all (\<lambda>v. 1 \<le> v \<and> v \<le> 5) (present_scores ev)"
  using assms
  by (auto simp: present_scores_def criteria_def in_1_5_def split: option.splits)

text \<open>For whole scores the hook's Number is the arithmetic mean rounded to a double.\<close>

lemma js_mean_whole:
  assumes "list_all (\<lambda>c. in_1_5 (score c)) (criteria ev)"
    and "list_all whole (present_scores ev)"
  shows "js_mean (present_scores ev) = map_option to_double (mean_of (present_scores ev))"
proof -
  have "list_all (\<lambda>v. whole v \<and> 1 \<le> v \<and> v \<le> 5) (present_scores ev)"
    using present_scores_range[OF assms(1)] assms(2) by (auto simp: list_all_iff)
  then have "js_average (present_scores ev)
      = to_double (sum_list (present_scores ev) / of_nat (length (present_scores ev)))"
    using present_scores_length by (rule js_average_whole)
  then show ?thesis by (simp add: js_mean_def mean_of_def)
qed

lemma findReview_id: "findReview i s = Some r \<Longrightarrow> r_id r = i"
  by (auto simp: findReview_def find_Some_iff)

lemma findReview_put_review:
  assumes "findReview rid s = Some r" and "r_id r' = rid"
  shows "findReview rid (put_review r' s) = Some r'"
proof -
  have id: "r_id r = rid" using assms(1) by (rule findReview_id)
  have mem: "r_id r' \<in> set (map r_id (reviews s))"
    using find_key_mem[of "\<lambda>x. r_id x = rid" "reviews s" r r_id] assms id
    by (simp add: findReview_def)
  have "find (\<lambda>x. r_id x = rid) (map (\<lambda>x. if r_id x = r_id r then r' else x) (reviews s))
        = Some r'"
    using assms by (intro find_map_replace) (simp_all add: findReview_def)
  then show ?thesis using mem id assms(2) by (simp add: put_review_def findReview_def)
qed

lemma findReview_update_manuscript [simp]:
  "findReview rid (update_manuscript mid f s) = findReview rid s"
  by (simp add: findReview_def)

lemma findReview_mirror_status [simp]:
  "findReview rid (mirror_status mid rv st s) = findReview rid s"
  by (simp add: findReview_def)

lemma findReview_put_manuscript [simp]:
  "findReview rid (put_manuscript m s) = findReview rid s"
  by (simp add: findReview_def)

lemma review_pre_save_completed:
  "r_status r1 = ''completed'' \<Longrightarrow> r_status (review_pre_save now old r1) = ''completed''"
  by (simp add: review_pre_save_def Let_def)

text \<open>What \<^verbatim>\<open>PUT /:id/submit\<close> stores for a valid submission.\<close>

lemma submit_review_stores:
  assumes "reviews_ok s" and "findReview rid s = Some r" and "r_reviewer r = c_id c"
    and "r_status r \<noteq> ''completed''" and "submission_valid b" and "sr_evaluation b = Some ev"
  shows "\<exists>r'. fst (submit_review c rid b now s) = Inr r'
           \<and> findReview rid (snd (submit_review c rid b now s)) = Some r'
           \<and> r_evaluation r' = ev \<and> r_status r' = ''completed''
           \<and> r_overallScore r' = js_mean (present_scores ev)"
proof -
  let ?r1 = "r\<lparr>r_recommendation := sr_recommendation b,
                          r_evaluation := ev,
                          r_confidenceLevel := sr_confidenceLevel b,
                          r_strengths := sr_strengths b,
                          r_weaknesses := sr_weaknesses b,
                          r_specificComments := sr_specificComments b,
                          r_confidentialComments := sr_confidentialComments b,
                          r_suggestedReviewers :=
                            (case sr_suggestedReviewers b of Some l \<Rightarrow> l | None \<Rightarrow> []),
                          r_status := ''completed'',
                          r_submittedDate := Some now\<rparr>"
  let ?r' = "review_pre_save now r ?r1"
  have rok: "review_ok r" using assms(1,2) by (rule stored_review_ok)
  have none: "r_overallScore r = None"
    using rok assms(4) by (auto simp: review_ok_def js_mean_def)
  have v: "review_validate ?r1"
    using assms(5,6) none
    by (auto simp: submission_valid_def review_validate_def review_status_enum_def isIn_def
        in_1_5_def[of None] split: option.splits)
  have ok': "review_ok ?r'"
    using rok assms(4) _ _ v by (rule submit_saved_ok) simp_all
  have checks: "isIn recommendation_enum (sr_recommendation b)" "truthy (sr_strengths b)"
      "truthy (sr_weaknesses b)" "truthy (sr_specificComments b)"
    using assms(5) by (simp_all add: submission_valid_def)
  have id: "r_id ?r' = rid" using findReview_id[OF assms(2)] by simp
  have res: "submit_review c rid b now s =
      (Inr ?r', update_manuscript (r_manuscript r)
                  (\<lambda>m. if r_id r \<in> set (m_reviews m) then m
                       else m\<lparr>m_reviews := m_reviews m @ [r_id r]\<rparr>)
                  (mirror_status (r_manuscript r) (r_reviewer r) ''completed''
                     (put_review ?r' s)))"
    using assms(2,3,4,6) checks v by (simp add: submit_review_def review_save_def Let_def)
  have found: "findReview rid (snd (submit_review c rid b now s)) = Some ?r'"
    unfolding res using findReview_put_review[OF assms(2) id] by simp
  have "r_overallScore ?r' = js_mean (present_scores ev)"
    using ok' by (simp add: review_ok_def)
  moreover have "r_status ?r' = ''completed''" by (rule review_pre_save_completed) simp
  ultimately show ?thesis using res found by simp
qed

text \<open>What \<^verbatim>\<open>POST /:reviewId/submit\<close> stores for a valid submission.\<close>

lemma submit_review_alt_stores:
  assumes "reviews_ok s" and "findReview rid s = Some r" and "r_reviewer r = c_id c"
    and "r_status r \<noteq> ''completed''" and "review_validate r" and "alt_submission_valid b"
  shows "\<exists>r'. findReview rid (snd (submit_review_alt c rid b now s)) = Some r'
           \<and> r_evaluation r' = alt_evaluation b \<and> r_status r' = ''completed''
           \<and> r_overallScore r' = js_mean (present_scores (alt_evaluation b))"
proof -
  let ?r1 = "r\<lparr>r_recommendation := sa_recommendation b,
                      r_evaluation :=
                        \<lparr>originality = \<lparr>score = sa_originality b, comment = None\<rparr>,
                         significance = \<lparr>score = sa_significance b, comment = None\<rparr>,
                         methodology = \<lparr>score = sa_methodology b, comment = None\<rparr>,
                         clarity = \<lparr>score = sa_clarity b, comment = None\<rparr>,
                         literature = no_criterion\<rparr>,
                      r_confidentialComments := sa_confidentialComments b,
                      r_submittedDate := Some now,
                      r_status := ''completed''\<rparr>"
  let ?r' = "review_pre_save now r ?r1"
  have rok: "review_ok r" using assms(1,2) by (rule stored_review_ok)
  have v: "review_validate ?r1"
    using assms(5,6)
    by (auto simp: alt_submission_valid_def review_validate_def review_status_enum_def isIn_def
        criteria_def no_criterion_def in_1_5_def[of None] split: option.splits)
  have ok': "review_ok ?r'"
    using rok assms(4) _ _ v by (rule submit_saved_ok) simp_all
  have checks: "isIn recommendation_enum (sa_recommendation b)" "truthy (sa_comments b)"
    using assms(6) by (simp_all add: alt_submission_valid_def)
  have id: "r_id ?r' = rid" using findReview_id[OF assms(2)] by simp
  have saved: "review_save now r ?r1 s = Some (put_review ?r' s)"
    using v by (simp add: review_save_def)
  have f1: "findReview rid (put_review ?r' s) = Some ?r'"
    by (rule findReview_put_review[OF assms(2) id])
  have "findReview rid (snd (submit_review_alt c rid b now s)) = Some ?r'"
    using assms(2,3,4) checks saved f1
    by (auto simp: submit_review_alt_def Let_def manuscript_save_def
        split: option.splits)
  moreover have "r_evaluation ?r' = alt_evaluation b" by (simp add: alt_evaluation_def)
  moreover have "r_overallScore ?r' = js_mean (present_scores (r_evaluation ?r'))"
    using ok' by (simp add: review_ok_def)
  moreover have "r_status ?r' = ''completed''" by (rule review_pre_save_completed) simp
  ultimately show ?thesis by (simp add: alt_evaluation_def)
qed





section \<open>The claims\<close>

text \<open>
  C1. The claim: for a manuscript with review assignments, make-decision succeeds exactly
  when every review of the manuscript is completed, and otherwise fails with
  PendingReviews. The gate counts the reviews whose status is \<open>pending\<close> or \<open>accepted\<close>,
  and accepting an assignment stores the status \<open>in-progress\<close>: after the only reviewer
  has accepted (and not submitted), the decision \<open>accept\<close> goes through and the manuscript
  becomes \<open>accepted\<close>.
\<close>

theorem make_decision_passes_in_progress_review:
  "map r_status (reviews (snd (accept_review reviewer7 10 2000
       (demo_store [demo_manuscript ''under-review'' [demo_assignment ''pending'']]
          [new_review 10 1 7 100 9000 1000] [])))) = [''in-progress'']
   \<and> fst (make_decision editor100 1 (decide ''accept'') 3000
       (snd (accept_review reviewer7 10 2000
          (demo_store [demo_manuscript ''under-review'' [demo_assignment ''pending'']]
             [new_review 10 1 7 100 9000 1000] []))))
       = Inr \<lparr>newStatus = Some ''accepted'', requiresPayment = True\<rparr>
   \<and> map m_status (manuscripts (snd (make_decision editor100 1 (decide ''accept'') 3000
       (snd (accept_review reviewer7 10 2000
          (demo_store [demo_manuscript ''under-review'' [demo_assignment ''pending'']]
             [new_review 10 1 7 100 9000 1000] []))))))
       = [Some ''accepted'']"
  by (simp add: demo_defs accept_review_def make_decision_def findReview_def new_review_def
      review_save_def review_validate_def review_status_enum_def criteria_def no_criterion_def
      in_1_5_def maxlength_def put_review_def review_pre_save_def collected_scores_def truthy_def
      mirror_status_def update_manuscript_def authorize_def findManuscript_def pendingReviews_def
      statusMap_def js_property_def status_of_def status_castable_def note_if_def push_note_def manuscript_save_def manuscript_validate_def
      manuscript_status_enum_def editor_decision_enum_def put_manuscript_def
      manuscript_pre_save_def Let_def)

text \<open>
  C2. The claim: make-decision on a manuscript whose status is not \<open>under-review\<close> fails
  with InvalidState and leaves the manuscript unchanged. The handler never reads the
  current status: a \<open>draft\<close> manuscript without reviews is moved to \<open>accepted\<close>, while
  initial-review on the same manuscript is refused by its status guard.
\<close>

theorem make_decision_has_no_status_guard:
  "fst (make_decision editor100 1 (decide ''accept'') 3000
          (demo_store [demo_manuscript ''draft'' []] [] []))
     = Inr \<lparr>newStatus = Some ''accepted'', requiresPayment = True\<rparr>
   \<and> map m_status (manuscripts (snd (make_decision editor100 1 (decide ''accept'') 3000
          (demo_store [demo_manuscript ''draft'' []] [] []))))
     = [Some ''accepted'']
   \<and> initial_review editor100 1 (decide ''send-for-review'') 3000
          (demo_store [demo_manuscript ''draft'' []] [] [])
     = (Inl InvalidState, demo_store [demo_manuscript ''draft'' []] [] [])"
  by (simp add: demo_defs make_decision_def initial_review_def authorize_def findManuscript_def
      pendingReviews_def statusMap_def js_property_def status_of_def status_castable_def note_if_def push_note_def manuscript_save_def
      manuscript_validate_def manuscript_status_enum_def editor_decision_enum_def
      put_manuscript_def manuscript_pre_save_def Let_def)

text \<open>
  C3. The claim: publish succeeds only when the manuscript is accepted and its payment is
  completed, and fails without a change when the payment is not completed. The handler
  checks the status only: an accepted manuscript whose \<open>paymentCompleted\<close> is false, with
  no payment at all in the store, is published.
\<close>

theorem publish_without_payment:
  "m_paymentCompleted (demo_manuscript ''accepted'' []) = False
   \<and> fst (publish editor100 1
        \<lparr>b_publicationDate = None, b_volume = None, b_issue = None, b_pages = None\<rparr> 3000
        (demo_store [demo_manuscript ''accepted'' []] [] []))
     = Inr \<lparr>publishedDate = 3000, volume = None, issue = None, pages = None,
            doi_stamp = 3000\<rparr>
   \<and> map m_status (manuscripts (snd (publish editor100 1
        \<lparr>b_publicationDate = None, b_volume = None, b_issue = None, b_pages = None\<rparr> 3000
        (demo_store [demo_manuscript ''accepted'' []] [] []))))
     = [Some ''published'']"
  by (simp add: demo_defs publish_def or_else_def authorize_def findManuscript_def manuscript_save_def
      manuscript_validate_def manuscript_status_enum_def put_manuscript_def
      manuscript_pre_save_def Let_def)

text \<open>
  C4. Payment initiation requires that the caller owns the manuscript or is admin and
  that the manuscript is accepted: otherwise the request is refused, nothing is sent to
  the gateway and the store is unchanged. The same holds whenever a completed payment
  exists for the manuscript; and when the caller passes the ownership and status checks
  (and the manuscript's author account exists, which the populated ownership test
  needs), the refusal is AlreadyPaid carrying the reference of that completed payment.
\<close>

theorem initiate_preconditions:
  "(\<not> payable_by c mid s \<or> completedPayment mid s \<noteq> None \<longrightarrow>
      (\<exists>f. initiate e c mid now s = (Inl f, s, [])))
   \<and> (payable_by c mid s \<and> completedPayment mid s = Some ex
        \<and> (\<exists>m a. findManuscript mid s = Some m \<and> findUser (m_submittedBy m) s = Some a) \<longrightarrow>
      initiate e c mid now s = (Inl (AlreadyPaid (p_paymentReference ex)), s, []))"
  using initiate_not_payable[of c mid s e now] initiate_already_paid[of mid s _ e c now]
    initiate_surfaces_reference[of mid s ex c _ _ e now]
  by blast

theorem initiate_preconditions_witness:
  "payable_by author1 1
     (demo_store [demo_manuscript ''accepted'' []] [] [demo_payment ''completed''])
   \<and> completedPayment 1
       (demo_store [demo_manuscript ''accepted'' []] [] [demo_payment ''completed''])
     = Some (demo_payment ''completed'')
   \<and> initiate demo_env author1 1 3000
       (demo_store [demo_manuscript ''accepted'' []] [] [demo_payment ''completed''])
     = (Inl (AlreadyPaid (Some ''PAY_123'')),
        demo_store [demo_manuscript ''accepted'' []] [] [demo_payment ''completed''], [])
   \<and> \<not> payable_by reviewer7 1
       (demo_store [demo_manuscript ''accepted'' []] [] [])
   \<and> (\<exists>f. initiate demo_env reviewer7 1 3000
       (demo_store [demo_manuscript ''accepted'' []] [] [])
     = (Inl f, demo_store [demo_manuscript ''accepted'' []] [] [], []))"
proof -
  let ?s = "demo_store [demo_manuscript ''accepted'' []] [] [demo_payment ''completed'']"
  let ?t = "demo_store [demo_manuscript ''accepted'' []] [] []"
  have p: "payable_by author1 1 ?s"
    by (simp add: payable_by_def findManuscript_def demo_defs)
  have c: "completedPayment 1 ?s = Some (demo_payment ''completed'')"
    by (simp add: completedPayment_def demo_defs)
  have a: "\<exists>m a. findManuscript 1 ?s = Some m \<and> findUser (m_submittedBy m) ?s = Some a"
    by (simp add: findManuscript_def findUser_def demo_defs)
  have r: "p_paymentReference (demo_payment ''completed'') = Some ''PAY_123''"
    by (simp add: demo_payment_def)
  have n: "\<not> payable_by reviewer7 1 ?t"
    by (simp add: payable_by_def findManuscript_def demo_defs)
  from p c a r n
    initiate_preconditions[where c = author1 and mid = 1 and s = ?s
      and ex = "demo_payment ''completed''" and e = demo_env and now = 3000]
    initiate_preconditions[where c = reviewer7 and mid = 1 and s = ?t
      and ex = "demo_payment ''completed''" and e = demo_env and now = 3000]
  show ?thesis by simp
qed

text \<open>
  C5. The claim: \<open>overallScore\<close> equals the arithmetic mean of the criterion scores that
  are present. The hook computes it in double-precision arithmetic: for the scores 1, 1
  and 2 the stored value is the double nearest to 4/3 (printed 1.3333333333333333), not
  4/3.
\<close>

theorem overallScore_mean_counterexample:
  "map r_overallScore (reviews (snd (submit_review reviewer7 10
       (demo_submission (Some 1) (Some 1) (Some 2)) 2000
       (demo_store [demo_manuscript ''under-review'' [demo_assignment ''pending'']]
          [new_review 10 1 7 100 9000 1000] []))))
     = [Some (6004799503160661 / 4503599627370496)]
   \<and> mean_of (present_scores \<lparr>originality = score_of (Some 1),
         significance = score_of (Some 1), methodology = score_of None,
         clarity = score_of (Some 2), literature = score_of None\<rparr>) = Some (4 / 3)
   \<and> (6004799503160661 / 4503599627370496 :: rat) \<noteq> 4 / 3"
  by (simp add: demo_defs demo_submission_def score_of_def submit_review_def isIn_def
      recommendation_enum_def truthy_def findReview_def new_review_def review_save_def
      review_validate_def review_status_enum_def criteria_def no_criterion_def in_1_5_def
      maxlength_def put_review_def review_pre_save_def collected_scores_def
      mirror_status_def update_manuscript_def present_scores_def mean_of_def double_eval)

text \<open>
  C5, as amended. For a stored review that its reviewer has not yet completed, in a store
  whose reviews are well-scored, a valid submission through either submission route
  stores the review with the submitted evaluation and with \<open>overallScore\<close> equal to the
  Number the hook computes from the scores that are present: their double-precision sum
  divided by their number. A criterion without a score contributes nothing; without any
  score the review has no \<open>overallScore\<close>; and for whole scores the value is the
  arithmetic mean rounded to the nearest double. Every operation that writes a review
  leaves all stored reviews well-scored, so the hypothesis holds in every store the
  routes produce from a well-scored one.
\<close>

theorem overallScore_is_double_mean_of_present_scores:
  assumes "reviews_ok s"
    and "findReview rid s = Some r" and "r_reviewer r = c_id c"
    and "r_status r \<noteq> ''completed''" and "review_validate r"
    and "submission_valid b" and "sr_evaluation b = Some ev"
    and "alt_submission_valid b'"
  shows "(\<exists>r'. fst (submit_review c rid b now s) = Inr r'
           \<and> findReview rid (snd (submit_review c rid b now s)) = Some r'
           \<and> r_evaluation r' = ev \<and> r_status r' = ''completed''
           \<and> r_overallScore r' = js_mean (present_scores ev)
           \<and> (present_scores ev = [] \<longrightarrow> r_overallScore r' = None)
           \<and> (list_all whole (present_scores ev) \<longrightarrow>
                r_overallScore r' = map_option to_double (mean_of (present_scores ev))))
       \<and> (\<exists>r'. findReview rid (snd (submit_review_alt c rid b' now s)) = Some r'
           \<and> r_evaluation r' = alt_evaluation b' \<and> r_status r' = ''completed''
           \<and> r_overallScore r' = js_mean (present_scores (alt_evaluation b')))
       \<and> reviews_ok (snd (submit_review c rid b now s))
       \<and> reviews_ok (snd (submit_review_alt c rid b' now s))
       \<and> reviews_ok (snd (assign c' mid rvs due now s))
       \<and> reviews_ok (snd (accept_review c' rid' now s))
       \<and> reviews_ok (snd (decline_review c' rid' s))"
proof (intro conjI)
  obtain r' where r': "fst (submit_review c rid b now s) = Inr r'"
      "findReview rid (snd (submit_review c rid b now s)) = Some r'"
      "r_evaluation r' = ev" "r_status r' = ''completed''"
      "r_overallScore r' = js_mean (present_scores ev)"
    using submit_review_stores[OF assms(1-4,6,7)] by blast
  have valid: "list_all (\<lambda>c. in_1_5 (score c)) (criteria ev)"
    using assms(6,7) by (simp add: submission_valid_def)
  have none: "present_scores ev = [] \<longrightarrow> r_overallScore r' = None"
    using r'(5) by (simp add: js_mean_def)
  have whole: "list_all whole (present_scores ev) \<longrightarrow>
      r_overallScore r' = map_option to_double (mean_of (present_scores ev))"
    using r'(5) js_mean_whole[OF valid] by simp
  show "\<exists>r'. fst (submit_review c rid b now s) = Inr r'
           \<and> findReview rid (snd (submit_review c rid b now s)) = Some r'
           \<and> r_evaluation r' = ev \<and> r_status r' = ''completed''
           \<and> r_overallScore r' = js_mean (present_scores ev)
           \<and> (present_scores ev = [] \<longrightarrow> r_overallScore r' = None)
           \<and> (list_all whole (present_scores ev) \<longrightarrow>
                r_overallScore r' = map_option to_double (mean_of (present_scores ev)))"
    using r' none whole by blast
  show "\<exists>r'. findReview rid (snd (submit_review_alt c rid b' now s)) = Some r'
           \<and> r_evaluation r' = alt_evaluation b' \<and> r_status r' = ''completed''
           \<and> r_overallScore r' = js_mean (present_scores (alt_evaluation b'))"
    using assms(1-5,8) by (rule submit_review_alt_stores)
  show "reviews_ok (snd (submit_review c rid b now s))" using assms(1) by (rule submit_ok)
  show "reviews_ok (snd (submit_review_alt c rid b' now s))"
    using assms(1) by (rule submit_alt_ok)
  show "reviews_ok (snd (assign c' mid rvs due now s))" using assms(1) by (rule assign_ok)
  show "reviews_ok (snd (accept_review c' rid' now s))" using assms(1) by (rule accept_ok)
  show "reviews_ok (snd (decline_review c' rid' s))" using assms(1) by (rule decline_ok)
qed

theorem overallScore_is_double_mean_of_present_scores_witness:
  "reviews_ok (demo_store [demo_manuscript ''under-review'' [demo_assignment ''pending'']]
       [new_review 10 1 7 100 9000 1000] [])
   \<and> submission_valid (demo_submission (Some 4) None (Some 5))
   \<and> submission_valid (demo_submission None None None)
   \<and> (\<exists>r'. fst (submit_review reviewer7 10 (demo_submission (Some 4) None (Some 5)) 2000
         (demo_store [demo_manuscript ''under-review'' [demo_assignment ''pending'']]
            [new_review 10 1 7 100 9000 1000] [])) = Inr r'
         \<and> findReview 10 (snd (submit_review reviewer7 10
              (demo_submission (Some 4) None (Some 5)) 2000
              (demo_store [demo_manuscript ''under-review'' [demo_assignment ''pending'']]
                 [new_review 10 1 7 100 9000 1000] []))) = Some r'
         \<and> r_status r' = ''completed''
         \<and> r_overallScore r' = Some (9 / 2))
   \<and> (\<exists>r'. fst (submit_review reviewer7 10 (demo_submission None None None) 2000
         (demo_store [demo_manuscript ''under-review'' [demo_assignment ''pending'']]
            [new_review 10 1 7 100 9000 1000] [])) = Inr r'
         \<and> findReview 10 (snd (submit_review reviewer7 10
              (demo_submission None None None) 2000
              (demo_store [demo_manuscript ''under-review'' [demo_assignment ''pending'']]
                 [new_review 10 1 7 100 9000 1000] []))) = Some r'
         \<and> r_status r' = ''completed''
         \<and> r_overallScore r' = None)"
proof -
  let ?s = "demo_store [demo_manuscript ''under-review'' [demo_assignment ''pending'']]
       [new_review 10 1 7 100 9000 1000] []"
  let ?alt = "\<lparr>sa_recommendation = Some ''accept'', sa_originality = Some 3,
       sa_methodology = None, sa_significance = None, sa_clarity = None,
       sa_comments = Some ''fine'', sa_confidentialComments = None\<rparr>"
  let ?ev = "\<lambda>x y z. \<lparr>originality = score_of x, significance = score_of y,
       methodology = score_of None, clarity = score_of z, literature = score_of None\<rparr>"
  have ok: "reviews_ok ?s"
    by (simp add: reviews_ok_def review_ok_def demo_store_def new_review_def criteria_def
        no_criterion_def in_1_5_def present_scores_def js_mean_def)
  have f: "findReview 10 ?s = Some (new_review 10 1 7 100 9000 1000)"
    by (simp add: findReview_def demo_store_def new_review_def)
  have o: "r_reviewer (new_review 10 1 7 100 9000 1000) = c_id reviewer7"
    by (simp add: reviewer7_def new_review_def)
  have p: "r_status (new_review 10 1 7 100 9000 1000) \<noteq> ''completed''"
    by (simp add: new_review_def)
  have v: "review_validate (new_review 10 1 7 100 9000 1000)"
    by (rule new_review_validate)
  have sv: "submission_valid (demo_submission x y z)"
    if "in_1_5 x" "in_1_5 y" "in_1_5 z" for x y z
    using that
    by (simp add: submission_valid_def demo_submission_def score_of_def isIn_def
        recommendation_enum_def truthy_def criteria_def maxlength_def in_1_5_def[of None])
  have sv1: "submission_valid (demo_submission (Some 4) None (Some 5))"
    by (rule sv) (simp_all add: in_1_5_def)
  have sv2: "submission_valid (demo_submission None None None)"
    by (rule sv) (simp_all add: in_1_5_def)
  have e: "sr_evaluation (demo_submission x y z) = Some (?ev x y z)" for x y z
    by (simp add: demo_submission_def)
  have av: "alt_submission_valid ?alt"
    by (simp add: alt_submission_valid_def isIn_def recommendation_enum_def truthy_def
        in_1_5_def maxlength_def)
  have m1: "js_mean (present_scores (?ev (Some 4) None (Some 5))) = Some (9 / 2)"
    by (simp add: js_mean_def present_scores_def criteria_def score_of_def double_eval)
  have m2: "js_mean (present_scores (?ev None None None)) = None"
    by (simp add: js_mean_def present_scores_def criteria_def score_of_def)
  have scored: "\<exists>r'. fst (submit_review reviewer7 10 (demo_submission (Some 4) None (Some 5))
       2000 ?s) = Inr r'
     \<and> findReview 10 (snd (submit_review reviewer7 10
          (demo_submission (Some 4) None (Some 5)) 2000 ?s)) = Some r'
     \<and> r_status r' = ''completed'' \<and> r_overallScore r' = Some (9 / 2)"
  proof -
    from overallScore_is_double_mean_of_present_scores[OF ok f o p v sv1 e av, of 2000,
        THEN conjunct1]
    obtain r' where "fst (submit_review reviewer7 10 (demo_submission (Some 4) None (Some 5))
          2000 ?s) = Inr r'"
      and "findReview 10 (snd (submit_review reviewer7 10
          (demo_submission (Some 4) None (Some 5)) 2000 ?s)) = Some r'"
      and "r_status r' = ''completed''"
      and "r_overallScore r' = js_mean (present_scores (?ev (Some 4) None (Some 5)))"
      by blast
    then show ?thesis unfolding m1 by blast
  qed
  have unscored: "\<exists>r'. fst (submit_review reviewer7 10 (demo_submission None None None)
       2000 ?s) = Inr r'
     \<and> findReview 10 (snd (submit_review reviewer7 10
          (demo_submission None None None) 2000 ?s)) = Some r'
     \<and> r_status r' = ''completed'' \<and> r_overallScore r' = None"
  proof -
    from overallScore_is_double_mean_of_present_scores[OF ok f o p v sv2 e av, of 2000,
        THEN conjunct1]
    obtain r' where "fst (submit_review reviewer7 10 (demo_submission None None None)
          2000 ?s) = Inr r'"
      and "findReview 10 (snd (submit_review reviewer7 10
          (demo_submission None None None) 2000 ?s)) = Some r'"
      and "r_status r' = ''completed''"
      and "r_overallScore r' = js_mean (present_scores (?ev None None None))"
      by blast
    then show ?thesis unfolding m2 by blast
  qed
  from ok sv1 sv2 scored unscored show ?thesis by blast
qed




text \<open>
  C8. The claim: verifying twice with the same successful reference leaves the payment
  completed, appends nothing twice, and leaves \<open>paidAt\<close> as the first call set it. After
  a verification at time 7000 \<open>paidAt\<close> is 7000; after a second one at time 8000 it is
  8000.
\<close>

theorem verify_paidAt_counterexample:
  "map p_paidAt (payments (snd (verify demo_env author1 ''PAY_123'' 7000
       (demo_store [demo_manuscript ''accepted'' []] [] [demo_payment ''processing'']))))
     = [Some 7000]
   \<and> map p_paidAt (payments (snd (verify demo_env author1 ''PAY_123'' 8000
       (snd (verify demo_env author1 ''PAY_123'' 7000
          (demo_store [demo_manuscript ''accepted'' []] [] [demo_payment ''processing'']))))))
     = [Some 8000]"
  by (simp add: demo_defs verify_def findPaymentByReference_def payment_save_def
      payment_validate_def payment_status_enum_def payment_pre_save_def truthy_def
      put_payment_def findManuscript_def manuscript_save_def manuscript_validate_def
      manuscript_status_enum_def put_manuscript_def manuscript_pre_save_def Let_def)

text \<open>
  C8, as amended. For a stored payment that the caller may verify and that the gateway
  reports as successful, with its manuscript in the store: verifying twice answers
  success both times, leaves the payment completed and the manuscript's mirror set, and
  leaves the store exactly as a single verification at the time of the second call
  leaves it, so nothing is appended or duplicated; \<open>paidAt\<close> is the time of the latest
  verification.
\<close>

theorem verify_twice_keeps_completed_and_restamps_paidAt:
  assumes "findPaymentByReference ref s = Some p" and "payment_validate p"
    and "p_user p = c_id c \<or> c_role c = ''admin''"
    and "paystack_verify e ref = Some d" and "v_status d = ''success''"
    and "findManuscript (p_manuscript p) s = Some m" and "manuscript_validate m"
  shows "fst (verify e c ref t2 (snd (verify e c ref t1 s)))
           = Inr (p\<lparr>p_status := ''completed'', p_paidAt := Some t2,
                    p_transactionId := Some (v_id d), p_paystackData := Some (v_raw d)\<rparr>)
       \<and> findPaymentByReference ref (snd (verify e c ref t2 (snd (verify e c ref t1 s))))
           = Some (p\<lparr>p_status := ''completed'', p_paidAt := Some t2,
                    p_transactionId := Some (v_id d), p_paystackData := Some (v_raw d)\<rparr>)
       \<and> findManuscript (p_manuscript p) (snd (verify e c ref t2 (snd (verify e c ref t1 s))))
           = Some (m\<lparr>m_paymentCompleted := True, m_paymentReference := p_paymentReference p,
                     m_lastModified := t2\<rparr>)
       \<and> snd (verify e c ref t2 (snd (verify e c ref t1 s))) = snd (verify e c ref t2 s)"
proof -
  let ?P = "\<lambda>t. p\<lparr>p_status := ''completed'', p_paidAt := Some t,
                   p_transactionId := Some (v_id d), p_paystackData := Some (v_raw d)\<rparr>"
  let ?M = "\<lambda>t. m\<lparr>m_paymentCompleted := True, m_paymentReference := p_paymentReference p,
                   m_lastModified := t\<rparr>"
  let ?S = "\<lambda>t. s\<lparr>payments := map (\<lambda>x. if p_id x = p_id p then ?P t else x) (payments s),
                   manuscripts := map (\<lambda>x. if m_id x = m_id m then ?M t else x) (manuscripts s)\<rparr>"
  have once: "verify e c ref t s = (Inr (?P t), ?S t)" for t
    using assms by (rule verify_success)
  have f1: "findPaymentByReference ref (?S t1) = Some (?P t1)"
    using assms(1) by (rule verified_payment_found) simp_all
  have m1: "findManuscript (p_manuscript (?P t1)) (?S t1) = Some (?M t1)"
    using verified_manuscript_found[OF assms(6), of "?M t1"] by simp
  have v1: "payment_validate (?P t1)"
    using assms(2) by (simp add: payment_validate_def payment_status_enum_def)
  have mv1: "manuscript_validate (?M t1)"
    using assms(7) by (simp add: manuscript_validate_def)
  have twice: "verify e c ref t2 (?S t1) =
      (Inr ((?P t1)\<lparr>p_status := ''completed'', p_paidAt := Some t2,
              p_transactionId := Some (v_id d), p_paystackData := Some (v_raw d)\<rparr>),
       (?S t1)\<lparr>payments := map (\<lambda>x. if p_id x = p_id (?P t1)
            then (?P t1)\<lparr>p_status := ''completed'', p_paidAt := Some t2,
                   p_transactionId := Some (v_id d), p_paystackData := Some (v_raw d)\<rparr>
            else x) (payments (?S t1)),
        manuscripts := map (\<lambda>x. if m_id x = m_id (?M t1)
            then (?M t1)\<lparr>m_paymentCompleted := True,
                   m_paymentReference := p_paymentReference (?P t1), m_lastModified := t2\<rparr>
            else x) (manuscripts (?S t1))\<rparr>)"
    using f1 v1 _ assms(4,5) m1 mv1
  proof (rule verify_success)
    show "p_user (?P t1) = c_id c \<or> c_role c = ''admin''" using assms(3) by simp
  qed
  have same: "snd (verify e c ref t2 (?S t1)) = ?S t2"
    unfolding twice by (simp add: map_replace_twice)
  have f2: "findPaymentByReference ref (?S t2) = Some (?P t2)"
    using assms(1) by (rule verified_payment_found) simp_all
  have m2: "findManuscript (p_manuscript p) (?S t2) = Some (?M t2)"
    using verified_manuscript_found[OF assms(6), of "?M t2"] by simp
  have r2: "fst (verify e c ref t2 (?S t1)) = Inr (?P t2)"
    unfolding twice by simp
  show ?thesis
    using r2 same f2 m2 by (simp add: once)
qed

theorem verify_twice_keeps_completed_and_restamps_paidAt_witness:
  "findPaymentByReference ''PAY_123''
       (demo_store [demo_manuscript ''accepted'' []] [] [demo_payment ''processing''])
     = Some (demo_payment ''processing'')
   \<and> payment_validate (demo_payment ''processing'')
   \<and> manuscript_validate (demo_manuscript ''accepted'' [])
   \<and> fst (verify demo_env author1 ''PAY_123'' 8000
       (snd (verify demo_env author1 ''PAY_123'' 7000
          (demo_store [demo_manuscript ''accepted'' []] [] [demo_payment ''processing'']))))
     = Inr ((demo_payment ''completed'')\<lparr>p_paidAt := Some 8000,
              p_transactionId := Some ''4099'', p_paystackData := Some ''{}''\<rparr>)
   \<and> snd (verify demo_env author1 ''PAY_123'' 8000
       (snd (verify demo_env author1 ''PAY_123'' 7000
          (demo_store [demo_manuscript ''accepted'' []] [] [demo_payment ''processing'']))))
     = snd (verify demo_env author1 ''PAY_123'' 8000
          (demo_store [demo_manuscript ''accepted'' []] [] [demo_payment ''processing'']))"
proof -
  let ?s = "demo_store [demo_manuscript ''accepted'' []] [] [demo_payment ''processing'']"
  let ?d = "\<lparr>v_status = ''success'', v_id = ''4099'',
             v_gateway_response = Some ''Successful'', v_raw = ''{}''\<rparr>"
  have f: "findPaymentByReference ''PAY_123'' ?s = Some (demo_payment ''processing'')"
    by (simp add: findPaymentByReference_def demo_store_def demo_payment_def)
  have v: "payment_validate (demo_payment ''processing'')"
    by (simp add: payment_validate_def payment_status_enum_def demo_payment_def)
  have o: "p_user (demo_payment ''processing'') = c_id author1 \<or> c_role author1 = ''admin''"
    by (simp add: demo_payment_def author1_def)
  have g: "paystack_verify demo_env ''PAY_123'' = Some ?d"
    by (simp add: demo_env_def)
  have st: "v_status ?d = ''success''" by simp
  have m: "findManuscript (p_manuscript (demo_payment ''processing'')) ?s
      = Some (demo_manuscript ''accepted'' [])"
    by (simp add: findManuscript_def demo_store_def demo_payment_def demo_manuscript_def)
  have mv: "manuscript_validate (demo_manuscript ''accepted'' [])"
    by (simp add: manuscript_validate_def manuscript_status_enum_def demo_manuscript_def)
  have eq: "(demo_payment ''processing'')\<lparr>p_status := ''completed'', p_paidAt := Some 8000,
              p_transactionId := Some (v_id ?d), p_paystackData := Some (v_raw ?d)\<rparr>
      = (demo_payment ''completed'')\<lparr>p_paidAt := Some 8000,
              p_transactionId := Some ''4099'', p_paystackData := Some ''{}''\<rparr>"
    by (simp add: demo_payment_def)
  from verify_twice_keeps_completed_and_restamps_paidAt[OF f v o g st m mv, of 8000 7000]
    f v mv eq
  show ?thesis by simp
qed

text \<open>
  C7. The claim: the webhook refuses a request whose signature does not match, and on a
  charge-succeeded event performs the completion update of verify. The signature check
  is there. The completion update is not: a correctly signed \<open>charge.success\<close> event for
  a payment in \<open>processing\<close> is answered with 200 and the store is left as it was, while
  verify on the same reference completes the payment and sets the manuscript's mirror.
\<close>

theorem webhook_charge_success_updates_nothing:
  "webhook demo_env ''{}'' (Some ''bad'')
       (demo_store [demo_manuscript ''accepted'' []] [] [demo_payment ''processing''])
     = (Inl InvalidSignature,
        demo_store [demo_manuscript ''accepted'' []] [] [demo_payment ''processing''])
   \<and> webhook demo_env ''{}'' (Some ''sk{}'')
       (demo_store [demo_manuscript ''accepted'' []] [] [demo_payment ''processing''])
     = (Inr (), demo_store [demo_manuscript ''accepted'' []] [] [demo_payment ''processing''])
   \<and> map p_status (payments
        (demo_store [demo_manuscript ''accepted'' []] [] [demo_payment ''processing'']))
     = [''processing'']
   \<and> map m_paymentCompleted (manuscripts
        (demo_store [demo_manuscript ''accepted'' []] [] [demo_payment ''processing'']))
     = [False]
   \<and> map p_status (payments (snd (verify demo_env author1 ''PAY_123'' 7000
        (demo_store [demo_manuscript ''accepted'' []] [] [demo_payment ''processing'']))))
     = [''completed'']
   \<and> map m_paymentCompleted (manuscripts (snd (verify demo_env author1 ''PAY_123'' 7000
        (demo_store [demo_manuscript ''accepted'' []] [] [demo_payment ''processing'']))))
     = [True]"
  by (simp add: demo_defs webhook_def verify_def findPaymentByReference_def payment_save_def
      payment_validate_def payment_status_enum_def payment_pre_save_def truthy_def
      put_payment_def findManuscript_def manuscript_save_def manuscript_validate_def
      manuscript_status_enum_def put_manuscript_def manuscript_pre_save_def Let_def)

text \<open>
  C9. The claim: submit-back by an editor or admin succeeds in any status, sets the
  status to \<open>submitted-back\<close> and sets the revision deadline. The handler assigns the
  status \<open>submitted-back\<close>, which the schema's status enum does not list, so the save is
  rejected: the answer is the handler's 500 and the stored manuscript keeps its status
  and has no deadline.
\<close>

theorem submit_back_rejected_by_status_enum:
  "submit_back editor100 1 \<lparr>sb_editorRemarks = None, sb_internalNotes = None,
       sb_revisionInstructions = None, sb_revisionDeadline = None\<rparr> 3000
       (demo_store [demo_manuscript ''under-review'' []] [] [])
     = (Inl ServerError, demo_store [demo_manuscript ''under-review'' []] [] [])"
  by (simp add: submit_back_def authorize_def editor100_def findManuscript_def demo_store_def
      demo_manuscript_def note_if_def push_note_def manuscript_save_def manuscript_validate_def
      manuscript_status_enum_def)

text \<open>
  C10. The claim: with a decision outside accept, minor-revisions, major-revisions and
  reject, make-decision does not fail and the manuscript is saved with its status unset.
  At the decision \<open>maybe\<close> the operation fails and the stored manuscript is unchanged.
\<close>

theorem make_decision_unknown_decision_counterexample:
  "make_decision editor100 1 (decide ''maybe'') 3000
       (demo_store [demo_manuscript ''under-review'' []] [] [])
     = (Inl ServerError, demo_store [demo_manuscript ''under-review'' []] [] [])"
  by (simp add: make_decision_def authorize_def editor100_def findManuscript_def demo_store_def
      demo_manuscript_def decide_def pendingReviews_def statusMap_def js_property_def
      object_prototype_keys_def status_of_def status_castable_def note_if_def push_note_def
      manuscript_save_def manuscript_validate_def editor_decision_enum_def Let_def)

text \<open>
  C10, as amended. For every decision string outside the four values the status map
  yields no status of its table (the lookup is \<^verbatim>\<open>undefined\<close>, or, for a name such as
  \<open>constructor\<close> that \<^verbatim>\<open>Object.prototype\<close> defines, the inherited value) and the
  handler itself does not check the decision, but the decision is also written to
  \<open>editorDecision.decision\<close>, whose enum validator rejects the save: the operation
  answers with the handler's 500 (not with a validation answer) and the store is
  unchanged.
\<close>

theorem make_decision_unknown_decision_not_saved:
  assumes "authorize [''editor'', ''admin''] c"
    and "findManuscript mid s = Some m"
    and "pendingReviews mid s = 0"
    and "b_decision b = Some d"
    and "d \<notin> set editor_decision_enum"
  shows "statusMap d = (if d \<in> set object_prototype_keys then Inherited else Undefined)
       \<and> make_decision c mid b now s = (Inl ServerError, s)"
proof -
  have "manuscript_save now m
          (x\<lparr>m_status := st, m_editorDecision := Some \<lparr>decision = d, decidedBy = u,
              decidedAt = now, d_notes = n\<rparr>\<rparr>) s = None" for x st u n
    using assms(5) by (simp add: manuscript_save_def manuscript_validate_def)
  then have "make_decision c mid b now s = (Inl ServerError, s)"
    using assms(1-4) by (simp add: make_decision_def Let_def)
  then show ?thesis using statusMap_outside[OF assms(5)] by simp
qed

theorem make_decision_unknown_decision_not_saved_witness:
  "authorize [''editor'', ''admin''] editor100
   \<and> findManuscript 1 (demo_store [demo_manuscript ''under-review'' []] [] [])
       = Some (demo_manuscript ''under-review'' [])
   \<and> pendingReviews 1 (demo_store [demo_manuscript ''under-review'' []] [] []) = 0
   \<and> ''revisions'' \<notin> set editor_decision_enum
   \<and> statusMap ''revisions'' = Undefined
   \<and> make_decision editor100 1 (decide ''revisions'') 3000
        (demo_store [demo_manuscript ''under-review'' []] [] [])
     = (Inl ServerError, demo_store [demo_manuscript ''under-review'' []] [] [])
   \<and> ''constructor'' \<notin> set editor_decision_enum
   \<and> statusMap ''constructor'' = Inherited
   \<and> make_decision editor100 1 (decide ''constructor'') 3000
        (demo_store [demo_manuscript ''under-review'' []] [] [])
     = (Inl ServerError, demo_store [demo_manuscript ''under-review'' []] [] [])"
proof -
  let ?s = "demo_store [demo_manuscript ''under-review'' []] [] []"
  have a: "authorize [''editor'', ''admin''] editor100"
    by (simp add: authorize_def editor100_def)
  have f: "findManuscript 1 ?s = Some (demo_manuscript ''under-review'' [])"
    by (simp add: findManuscript_def demo_store_def demo_manuscript_def)
  have p: "pendingReviews 1 ?s = 0"
    by (simp add: pendingReviews_def demo_store_def)
  have d: "b_decision (decide x) = Some x" for x
    by (simp add: decide_def)
  have n: "''revisions'' \<notin> set editor_decision_enum"
    by (simp add: editor_decision_enum_def)
  have n': "''constructor'' \<notin> set editor_decision_enum"
    by (simp add: editor_decision_enum_def)
  have k: "''revisions'' \<notin> set object_prototype_keys"
    "''constructor'' \<in> set object_prototype_keys"
    by (simp_all add: object_prototype_keys_def)
  from make_decision_unknown_decision_not_saved[OF a f p d n, of 3000]
    make_decision_unknown_decision_not_saved[OF a f p d n', of 3000] a f p n n' k
  show ?thesis by simp
qed

end
